theory Spec2Isabelle
  imports Complex_Main "HOL-Library.Word"
begin

section \<open>Data model of main_distortionCalibration.cpp\<close>

text \<open>
  \<open>IndexT\<close> (an unsigned 32-bit integer) is modelled as a 32-bit word, and the loop
  counters, which range over the non-negative dimensions of a board, as naturals.
  Indexing a \<open>std::vector\<close> out of range is undefined behaviour in the source; every
  function that can do so returns an option and \<open>None\<close> stands for that case.

  The doubles that the program only stores, copies and passes on (the corners read from
  the detector files, the scale, the offset, the distortion parameters, the statistics)
  are modelled as reals. The doubles that the program computes with and compares in
  \<open>generatePoints\<close> are values of the type \<open>double\<close> below: a real number, one of the two
  infinities, or NaN. Rounding and overflow of finite values are left out.
\<close>

type_synonym Vec2 = "real \<times> real"

datatype double = Num real | PInf | MInf | NaN

type_synonym DVec2 = "double \<times> double"

fun dneg :: "double \<Rightarrow> double" where
  "dneg (Num x) = Num (- x)"
| "dneg PInf = MInf"
| "dneg MInf = PInf"
| "dneg NaN = NaN"

fun dadd :: "double \<Rightarrow> double \<Rightarrow> double" where
  "dadd NaN b = NaN"
| "dadd a NaN = NaN"
| "dadd (Num x) (Num y) = Num (x + y)"
| "dadd PInf MInf = NaN"
| "dadd MInf PInf = NaN"
| "dadd PInf b = PInf"
| "dadd a PInf = PInf"
| "dadd MInf b = MInf"
| "dadd a MInf = MInf"

definition dsub :: "double \<Rightarrow> double \<Rightarrow> double" where
  "dsub a b = dadd a (dneg b)"

text \<open>The product of an infinity and a finite number: NaN at zero, else by the signs.\<close>

definition inf_times :: "bool \<Rightarrow> real \<Rightarrow> double" where
  "inf_times positive x =
     (if x = 0 then NaN else if (0 < x) = positive then PInf else MInf)"

fun dmul :: "double \<Rightarrow> double \<Rightarrow> double" where
  "dmul NaN b = NaN"
| "dmul a NaN = NaN"
| "dmul (Num x) (Num y) = Num (x * y)"
| "dmul PInf (Num y) = inf_times True y"
| "dmul MInf (Num y) = inf_times False y"
| "dmul (Num x) PInf = inf_times True x"
| "dmul (Num x) MInf = inf_times False x"
| "dmul PInf PInf = PInf"
| "dmul MInf MInf = PInf"
| "dmul PInf MInf = MInf"
| "dmul MInf PInf = MInf"

fun dsqrt :: "double \<Rightarrow> double" where
  "dsqrt (Num x) = (if x < 0 then NaN else Num (sqrt x))"
| "dsqrt PInf = PInf"
| "dsqrt MInf = NaN"
| "dsqrt NaN = NaN"

text \<open>The comparisons \<open>a > b\<close> and \<open>a <= b\<close> of doubles: both are false when an operand is NaN.\<close>

fun dgt :: "double \<Rightarrow> double \<Rightarrow> bool" where
  "dgt NaN b = False"
| "dgt a NaN = False"
| "dgt (Num x) (Num y) = (x > y)"
| "dgt PInf PInf = False"
| "dgt PInf b = True"
| "dgt a PInf = False"
| "dgt MInf b = False"
| "dgt a MInf = True"

fun dle :: "double \<Rightarrow> double \<Rightarrow> bool" where
  "dle NaN b = False"
| "dle a NaN = False"
| "dle a b = (\<not> dgt a b)"

definition to_double :: "Vec2 \<Rightarrow> DVec2" where
  "to_double p = (Num (fst p), Num (snd p))"

type_synonym IndexT = "32 word"

definition UndefinedIndexT :: IndexT where
  "UndefinedIndexT = - 1"

definition M_PI_4 :: real where
  "M_PI_4 = pi / 4"

definition M_PI_2 :: real where
  "M_PI_2 = pi / 2"

record CheckerBoardCorner =
  center :: Vec2

text \<open>A board is a matrix of corner indices; \<open>cells b i j\<close> is the source's \<open>b(i, j)\<close>.\<close>

record CheckerBoard =
  rows :: nat
  cols :: nat
  cells :: "nat \<Rightarrow> nat \<Rightarrow> IndexT"

record CheckerDetector =
  getCorners :: "CheckerBoardCorner list"
  getBoards :: "CheckerBoard list"

record LineWithPoints =
  angle :: real
  dist :: real
  horizontal :: bool
  index :: nat
  board :: nat
  points :: "Vec2 list"

record PointPair =
  distortedPoint :: DVec2
  undistortedPoint :: DVec2

section \<open>retrieveLines\<close>

text \<open>
  The five inner loops of \<open>retrieveLines\<close> differ only in the test that breaks out of
  the loop and in the cell they read at counter \<open>k\<close>. \<open>line_loop\<close> is that loop: it
  stops at the first counter for which \<open>brk\<close> holds, skips undefined cells, and appends
  the centre of the corner a defined cell points to.
\<close>

fun line_loop :: "CheckerBoard \<Rightarrow> CheckerBoardCorner list \<Rightarrow> (nat \<Rightarrow> bool) \<Rightarrow>
    (nat \<Rightarrow> nat \<times> nat) \<Rightarrow> nat list \<Rightarrow> Vec2 list \<Rightarrow> Vec2 list option" where
  "line_loop b corners brk cell [] pts = Some pts"
| "line_loop b corners brk cell (k # ks) pts =
     (if brk k then Some pts
      else let idx = cells b (fst (cell k)) (snd (cell k)) in
        if idx = UndefinedIndexT then line_loop b corners brk cell ks pts
        else if unat idx < length corners
          then line_loop b corners brk cell ks (pts @ [center (corners ! unat idx)])
          else None)"

definition horizontal_points :: "CheckerBoard \<Rightarrow> CheckerBoardCorner list \<Rightarrow> nat \<Rightarrow> Vec2 list option" where
  "horizontal_points b corners i =
     line_loop b corners (\<lambda>j. False) (\<lambda>j. (i, j)) [0..<cols b] []"

definition vertical_points :: "CheckerBoard \<Rightarrow> CheckerBoardCorner list \<Rightarrow> nat \<Rightarrow> Vec2 list option" where
  "vertical_points b corners j =
     line_loop b corners (\<lambda>i. False) (\<lambda>i. (i, j)) [0..<rows b] []"

definition diagonal1_points :: "CheckerBoard \<Rightarrow> CheckerBoardCorner list \<Rightarrow> nat \<Rightarrow> Vec2 list option" where
  "diagonal1_points b corners i =
     line_loop b corners (\<lambda>j. i + j \<ge> rows b) (\<lambda>j. (i + j, j)) [0..<cols b] []"

definition diagonal2_points :: "CheckerBoard \<Rightarrow> CheckerBoardCorner list \<Rightarrow> nat \<Rightarrow> Vec2 list option" where
  "diagonal2_points b corners j =
     line_loop b corners (\<lambda>i. i + j \<ge> cols b) (\<lambda>i. (i, i + j)) [0..<rows b] []"

definition diagonal3_points :: "CheckerBoard \<Rightarrow> CheckerBoardCorner list \<Rightarrow> nat \<Rightarrow> Vec2 list option" where
  "diagonal3_points b corners j =
     line_loop b corners (\<lambda>i. i + j \<ge> cols b) (\<lambda>i. (rows b - 1 - i, i + j)) [0..<rows b] []"

text \<open>
  The outer loop of a family: one candidate line per counter, created with angle
  \<open>M_PI_4\<close> and dist 1, dropped when it has fewer than 10 points, pushed otherwise.
\<close>

fun family_loop :: "(nat \<Rightarrow> Vec2 list option) \<Rightarrow> bool \<Rightarrow> nat \<Rightarrow> nat list \<Rightarrow>
    LineWithPoints list \<Rightarrow> LineWithPoints list option" where
  "family_loop inner hz boardIdx [] lineWithPoints = Some lineWithPoints"
| "family_loop inner hz boardIdx (i # is) lineWithPoints =
     (case inner i of
        None \<Rightarrow> None
      | Some pts \<Rightarrow>
          let line = \<lparr>angle = M_PI_4, dist = 1, horizontal = hz, index = i,
                      board = boardIdx, points = pts\<rparr>
          in if length (points line) < 10
             then family_loop inner hz boardIdx is lineWithPoints
             else family_loop inner hz boardIdx is (lineWithPoints @ [line]))"

definition board_lines :: "CheckerBoardCorner list \<Rightarrow> CheckerBoard \<Rightarrow> nat \<Rightarrow>
    LineWithPoints list \<Rightarrow> LineWithPoints list option" where
  "board_lines corners b boardIdx l0 =
     (case family_loop (horizontal_points b corners) True boardIdx [0..<rows b] l0 of
        None \<Rightarrow> None
      | Some l1 \<Rightarrow>
     (case family_loop (vertical_points b corners) False boardIdx [0..<cols b] l1 of
        None \<Rightarrow> None
      | Some l2 \<Rightarrow>
     (case family_loop (diagonal1_points b corners) False boardIdx [0..<rows b] l2 of
        None \<Rightarrow> None
      | Some l3 \<Rightarrow>
     (case family_loop (diagonal2_points b corners) False boardIdx [0..<cols b] l3 of
        None \<Rightarrow> None
      | Some l4 \<Rightarrow>
        family_loop (diagonal3_points b corners) False boardIdx [0..<cols b] l4))))"

fun boards_loop :: "CheckerBoardCorner list \<Rightarrow> CheckerBoard list \<Rightarrow> nat \<Rightarrow>
    LineWithPoints list \<Rightarrow> LineWithPoints list option" where
  "boards_loop corners [] boardIdx lineWithPoints = Some lineWithPoints"
| "boards_loop corners (b # bs) boardIdx lineWithPoints =
     (case board_lines corners b boardIdx lineWithPoints of
        None \<Rightarrow> None
      | Some ls \<Rightarrow> boards_loop corners bs (boardIdx + 1) ls)"

text \<open>
  \<open>retrieveLines\<close> clears its output vector, fills it, and returns whether it holds at
  least two lines. The model returns the flag together with the vector.
\<close>

definition retrieveLines :: "CheckerDetector \<Rightarrow> (bool \<times> LineWithPoints list) option" where
  "retrieveLines detect =
     (case boards_loop (getCorners detect) (getBoards detect) 0 [] of
        None \<Rightarrow> None
      | Some lineWithPoints \<Rightarrow>
          if length lineWithPoints < 2 then Some (False, lineWithPoints)
          else Some (True, lineWithPoints))"

section \<open>Cameras, the solver and the trace of its calls\<close>

text \<open>
  The program tells the camera classes apart with \<open>dynamic_pointer_cast\<close>. An intrinsic is
  either a \<open>Pinhole\<close> (of one of five distortion classes the program knows, or of another
  class derived from \<open>Pinhole\<close>) or not a \<open>Pinhole\<close> at all.
\<close>

datatype PinholeClass =
  PinholeRadialK1 | PinholeRadialK3 | Pinhole3DERadial4 | Pinhole3DEAnamorphic4 |
  Pinhole3DEClassicLD | PinholeOther

record Pinhole =
  dynamicClass :: PinholeClass
  w :: nat
  h :: nat
  getScale :: Vec2
  getOffset :: Vec2
  getDistortionParams :: "real list"

datatype IntrinsicBase = IsPinhole Pinhole | NotPinhole

definition setScale :: "Vec2 \<Rightarrow> Pinhole \<Rightarrow> Pinhole" where
  "setScale s camera = camera\<lparr>getScale := s\<rparr>"

definition setDistortionParams :: "real list \<Rightarrow> Pinhole \<Rightarrow> Pinhole" where
  "setDistortionParams p camera = camera\<lparr>getDistortionParams := p\<rparr>"

record Statistics =
  mean :: real
  stddev :: real
  median :: real

datatype LogEntry =
  LOG_ERROR string
| LOG_INFO string
| LOG_INFO_Id string IndexT
| LOG_INFO_Mean real real
| LOG_INFO_Median real

text \<open>
  \<open>calibration::estimate\<close> is not part of this file: it is a parameter of the model. It
  receives the camera, the statistics, the items (lines or point pairs) and the four
  locks, and returns its boolean result with the camera, statistics and items as it
  leaves them. The model records every call in a trace.
\<close>

type_synonym 'i estimator =
  "Pinhole \<Rightarrow> Statistics \<Rightarrow> 'i list \<Rightarrow> bool \<Rightarrow> bool \<Rightarrow> bool list \<Rightarrow> bool \<Rightarrow>
   bool \<times> Pinhole \<times> Statistics \<times> 'i list"

record EstimateCall =
  lockScale :: bool
  lockOffset :: bool
  locksDistortions :: "bool list"
  lockLines :: bool
  cameraBefore :: Pinhole
  cameraAfter :: Pinhole
  succeeded :: bool

record World =
  logs :: "LogEntry list"
  estimateCalls :: "EstimateCall list"

type_synonym 'i sstate = "Pinhole \<times> Statistics \<times> 'i list \<times> World"

definition log_entry :: "LogEntry \<Rightarrow> World \<Rightarrow> World" where
  "log_entry e wd = wd\<lparr>logs := logs wd @ [e]\<rparr>"

definition log_error :: "string \<Rightarrow> 'i sstate \<Rightarrow> 'i sstate" where
  "log_error msg s =
     (case s of (camera, statistics, items, wd) \<Rightarrow>
        (camera, statistics, items, log_entry (LOG_ERROR msg) wd))"

text \<open>The solver works on the object it is given: the dynamic class of the camera stays.\<close>

definition estimate :: "'i estimator \<Rightarrow> 'i sstate \<Rightarrow> bool \<Rightarrow> bool \<Rightarrow> bool list \<Rightarrow> bool \<Rightarrow>
    bool \<times> 'i sstate" where
  "estimate est s lScale lOffset locks lLines =
     (case s of (camera, statistics, items, wd) \<Rightarrow>
        (case est camera statistics items lScale lOffset locks lLines of
           (ok, camera', statistics', items') \<Rightarrow>
             let camera'' = camera'\<lparr>dynamicClass := dynamicClass camera\<rparr>
             in (ok, (camera'', statistics', items',
                  wd\<lparr>estimateCalls := estimateCalls wd @
                    [\<lparr>lockScale = lScale, lockOffset = lOffset, locksDistortions = locks,
                      lockLines = lLines, cameraBefore = camera, cameraAfter = camera'',
                      succeeded = ok\<rparr>]\<rparr>))))"

section \<open>The five schedules\<close>

definition estimateDistortionK1 :: "'i estimator \<Rightarrow> 'i sstate \<Rightarrow> bool \<times> 'i sstate" where
  "estimateDistortionK1 est s0 =
     (let locksDistortions = [True];
          locksDistortions = locksDistortions[0 := True];
          (ok1, s1) = estimate est s0 True True locksDistortions False
      in if \<not> ok1 then (False, log_error ''Failed to calibrate'' s1)
      else
      let locksDistortions = locksDistortions[0 := False];
          (ok2, s2) = estimate est s1 True True locksDistortions False
      in if \<not> ok2 then (False, log_error ''Failed to calibrate'' s2)
      else
      let locksDistortions = locksDistortions[0 := False];
          (ok3, s3) = estimate est s2 True False locksDistortions False
      in if \<not> ok3 then (False, log_error ''Failed to calibrate'' s3)
      else (True, s3))"

definition estimateDistortionK3 :: "'i estimator \<Rightarrow> 'i sstate \<Rightarrow> bool \<times> 'i sstate" where
  "estimateDistortionK3 est s0 =
     (let locksDistortions = [True, True, True];
          locksDistortions = locksDistortions[0 := True];
          (ok1, s1) = estimate est s0 True True locksDistortions False
      in if \<not> ok1 then (False, log_error ''Failed to calibrate'' s1)
      else
      let locksDistortions = locksDistortions[0 := False];
          (ok2, s2) = estimate est s1 True True locksDistortions False
      in if \<not> ok2 then (False, log_error ''Failed to calibrate'' s2)
      else
      let locksDistortions = locksDistortions[0 := False];
          (ok3, s3) = estimate est s2 True False locksDistortions False
      in if \<not> ok3 then (False, log_error ''Failed to calibrate'' s3)
      else
      let locksDistortions = locksDistortions[0 := False];
          locksDistortions = locksDistortions[1 := False];
          locksDistortions = locksDistortions[2 := False];
          (ok4, s4) = estimate est s3 True False locksDistortions False
      in if \<not> ok4 then (False, log_error ''Failed to calibrate'' s4)
      else (True, s4))"

definition estimateDistortion3DER4 :: "'i estimator \<Rightarrow> 'i sstate \<Rightarrow> bool \<times> 'i sstate" where
  "estimateDistortion3DER4 est s0 =
     (let locksDistortions = [True, True, True, True, True, True];
          locksDistortions = locksDistortions[0 := True];
          (ok1, s1) = estimate est s0 True True locksDistortions False
      in if \<not> ok1 then (False, log_error ''Failed to calibrate'' s1)
      else
      let locksDistortions = locksDistortions[0 := False];
          (ok2, s2) = estimate est s1 True True locksDistortions False
      in if \<not> ok2 then (False, log_error ''Failed to calibrate'' s2)
      else
      let locksDistortions = locksDistortions[0 := False];
          (ok3, s3) = estimate est s2 True False locksDistortions False
      in if \<not> ok3 then (False, log_error ''Failed to calibrate'' s3)
      else
      let locksDistortions = locksDistortions[0 := False];
          locksDistortions = locksDistortions[1 := False];
          locksDistortions = locksDistortions[2 := False];
          locksDistortions = locksDistortions[3 := False];
          locksDistortions = locksDistortions[4 := False];
          locksDistortions = locksDistortions[5 := False];
          (ok4, s4) = estimate est s3 True False locksDistortions False
      in if \<not> ok4 then (False, log_error ''Failed to calibrate'' s4)
      else (True, s4))"

text \<open>
  The two 3DE schedules first overwrite entries of the camera's parameter vector by
  index. The largest index written is 13 (anamorphic) and 4 (classic LD); on a shorter
  vector the writes are out of range and the result is \<open>None\<close>.
\<close>

definition initParams3DEA4 :: "real list \<Rightarrow> real list option" where
  "initParams3DEA4 params0 =
     (if length params0 < 14 then None
      else
        let params = params0[0 := 0];
            params = params[1 := 0];
            params = params[2 := 0];
            params = params[3 := 0];
            params = params[5 := 0];
            params = params[6 := 0];
            params = params[7 := 0];
            params = params[8 := 0];
            params = params[9 := 0];
            params = params[10 := 0];
            params = params[11 := 1];
            params = params[12 := 1];
            params = params[13 := 1]
        in Some params)"

definition estimateDistortion3DEA4 :: "'i estimator \<Rightarrow> 'i sstate \<Rightarrow> (bool \<times> 'i sstate) option" where
  "estimateDistortion3DEA4 est s =
     (case s of (camera, statistics, items, wd) \<Rightarrow>
      case initParams3DEA4 (getDistortionParams camera) of
        None \<Rightarrow> None
      | Some params \<Rightarrow>
      let s0 = (setDistortionParams params camera, statistics, items, wd);
          locksDistortions = [True, True, True, True, True, True, True,
                              True, True, True, True, True, True, True];
          locksDistortions = locksDistortions[0 := True];
          (ok1, s1) = estimate est s0 True True locksDistortions False
      in if \<not> ok1 then Some (False, log_error ''Failed to calibrate'' s1)
      else
      let (ok2, s2) = estimate est s1 True False locksDistortions False
      in if \<not> ok2 then Some (False, log_error ''Failed to calibrate'' s2)
      else
      let locksDistortions = locksDistortions[0 := False];
          locksDistortions = locksDistortions[1 := False];
          locksDistortions = locksDistortions[2 := False];
          locksDistortions = locksDistortions[3 := False];
          (ok3, s3) = estimate est s2 True False locksDistortions True
      in if \<not> ok3 then Some (False, log_error ''Failed to calibrate'' s3)
      else
      let locksDistortions = locksDistortions[4 := False];
          locksDistortions = locksDistortions[5 := False];
          locksDistortions = locksDistortions[6 := False];
          locksDistortions = locksDistortions[7 := False];
          locksDistortions = locksDistortions[8 := False];
          locksDistortions = locksDistortions[9 := False];
          (ok4, s4) = estimate est s3 True False locksDistortions True
      in if \<not> ok4 then Some (False, log_error ''Failed to calibrate'' s4)
      else
      let locksDistortions = locksDistortions[0 := False];
          locksDistortions = locksDistortions[1 := False];
          locksDistortions = locksDistortions[2 := False];
          locksDistortions = locksDistortions[3 := False];
          locksDistortions = locksDistortions[4 := False];
          locksDistortions = locksDistortions[5 := False];
          locksDistortions = locksDistortions[6 := False];
          locksDistortions = locksDistortions[7 := False];
          locksDistortions = locksDistortions[8 := False];
          locksDistortions = locksDistortions[9 := False];
          locksDistortions = locksDistortions[10 := False];
          locksDistortions = locksDistortions[11 := False];
          locksDistortions = locksDistortions[12 := True];
          locksDistortions = locksDistortions[13 := True];
          (ok5, s5) = estimate est s4 True False locksDistortions True
      in if \<not> ok5 then Some (False, log_error ''Failed to calibrate'' s5)
      else Some (True, s5))"

definition initParams3DELD :: "real list \<Rightarrow> real list option" where
  "initParams3DELD params0 =
     (if length params0 < 5 then None
      else
        let params = params0[0 := 0];
            params = params[1 := M_PI_2];
            params = params[2 := 0];
            params = params[3 := 0];
            params = params[4 := 0]
        in Some params)"

definition estimateDistortion3DELD :: "'i estimator \<Rightarrow> 'i sstate \<Rightarrow> (bool \<times> 'i sstate) option" where
  "estimateDistortion3DELD est s =
     (case s of (camera, statistics, items, wd) \<Rightarrow>
      case initParams3DELD (getDistortionParams camera) of
        None \<Rightarrow> None
      | Some params \<Rightarrow>
      let s0 = (setDistortionParams params camera, statistics, items, wd);
          locksDistortions = [True, True, True, True, True];
          locksDistortions = locksDistortions[0 := True];
          (ok1, s1) = estimate est s0 True True locksDistortions False
      in if \<not> ok1 then Some (False, log_error ''Failed to calibrate'' s1)
      else
      let locksDistortions = locksDistortions[0 := False];
          (ok2, s2) = estimate est s1 True True locksDistortions False
      in if \<not> ok2 then Some (False, log_error ''Failed to calibrate'' s2)
      else
      let locksDistortions = locksDistortions[0 := False];
          (ok3, s3) = estimate est s2 True False locksDistortions False
      in if \<not> ok3 then Some (False, log_error ''Failed to calibrate'' s3)
      else
      let locksDistortions = locksDistortions[0 := False];
          locksDistortions = locksDistortions[1 := True];
          locksDistortions = locksDistortions[2 := False];
          locksDistortions = locksDistortions[3 := False];
          locksDistortions = locksDistortions[4 := True];
          (ok4, s4) = estimate est s3 True False locksDistortions False
      in if \<not> ok4 then Some (False, log_error ''Failed to calibrate'' s4)
      else
      let locksDistortions = locksDistortions[0 := False];
          locksDistortions = locksDistortions[1 := False];
          locksDistortions = locksDistortions[2 := False];
          locksDistortions = locksDistortions[3 := False];
          locksDistortions = locksDistortions[4 := False];
          (ok5, s5) = estimate est s4 True False locksDistortions True
      in if \<not> ok5 then Some (False, log_error ''Failed to calibrate'' s5)
      else Some (True, s5))"

section \<open>generatePoints\<close>

text \<open>The difference of two vectors and the norm of a vector, on doubles.\<close>

definition vsub :: "DVec2 \<Rightarrow> DVec2 \<Rightarrow> DVec2" where
  "vsub a b = (dsub (fst a) (fst b), dsub (snd a) (snd b))"

definition vnorm :: "DVec2 \<Rightarrow> double" where
  "vnorm a = dsqrt (dadd (dmul (fst a) (fst a)) (dmul (snd a) (snd a)))"

text \<open>
  The functions of the library that the program calls: the solver on lines and on point
  pairs, the camera's \<open>get_d_pixel\<close> and \<open>get_ud_pixel\<close>, and the value of a
  default-constructed \<open>Statistics\<close>.
\<close>

record Library =
  estimateLines :: "LineWithPoints estimator"
  estimatePoints :: "PointPair estimator"
  get_d_pixel :: "Pinhole \<Rightarrow> DVec2 \<Rightarrow> DVec2"
  get_ud_pixel :: "Pinhole \<Rightarrow> DVec2 \<Rightarrow> DVec2"
  defaultStatistics :: Statistics

text \<open>
  The test of the loop is the source's \<open>err > 1e-3\<close> on doubles: it is false, and the pair
  is pushed, when \<open>err\<close> is NaN.
\<close>

fun points_loop :: "Library \<Rightarrow> Pinhole \<Rightarrow> Vec2 list \<Rightarrow> PointPair list \<Rightarrow> PointPair list" where
  "points_loop lib camera [] pairs = pairs"
| "points_loop lib camera (pt # pts) pairs =
     (let pp = \<lparr>distortedPoint = to_double pt,
                undistortedPoint = get_d_pixel lib camera (to_double pt)\<rparr>;
          err = vnorm (vsub (get_ud_pixel lib camera (undistortedPoint pp)) (distortedPoint pp))
      in if dgt err (Num (1 / 1000))
         then points_loop lib camera pts pairs
         else points_loop lib camera pts (pairs @ [pp]))"

fun lines_loop :: "Library \<Rightarrow> Pinhole \<Rightarrow> LineWithPoints list \<Rightarrow> PointPair list \<Rightarrow> PointPair list" where
  "lines_loop lib camera [] pairs = pairs"
| "lines_loop lib camera (l # ls) pairs =
     lines_loop lib camera ls (points_loop lib camera (points l) pairs)"

definition generatePoints :: "Library \<Rightarrow> PointPair list \<Rightarrow> Pinhole \<Rightarrow> LineWithPoints list \<Rightarrow>
    bool \<times> PointPair list" where
  "generatePoints lib pairs camera lineWithPoints =
     (True, lines_loop lib camera lineWithPoints pairs)"

section \<open>aliceVision_main\<close>

record View =
  getIntrinsicId :: IndexT

text \<open>The two maps of the scene are iterated in key order: they are association lists.\<close>

record SfMData =
  getViews :: "(IndexT \<times> View) list"
  getIntrinsics :: "(IndexT \<times> IntrinsicBase) list"

definition EXIT_SUCCESS :: int where
  "EXIT_SUCCESS = 0"

definition EXIT_FAILURE :: int where
  "EXIT_FAILURE = 1"

text \<open>
  Loading the checkerboards: a view whose file cannot be opened gets no entry.
  \<open>files viewId\<close> is the detector stored in the file of that view, if there is one.
\<close>

fun load_boards :: "(IndexT \<rightharpoonup> CheckerDetector) \<Rightarrow> (IndexT \<times> View) list \<Rightarrow>
    (IndexT \<rightharpoonup> CheckerDetector) \<Rightarrow> (IndexT \<rightharpoonup> CheckerDetector)" where
  "load_boards files [] boardsAllImages = boardsAllImages"
| "load_boards files (pv # pvs) boardsAllImages =
     (case files (fst pv) of
        None \<Rightarrow> load_boards files pvs boardsAllImages
      | Some detector \<Rightarrow> load_boards files pvs (boardsAllImages(fst pv \<mapsto> detector)))"

text \<open>\<open>boardsAllImages[viewId]\<close> gives a default-constructed detector for a missing key.\<close>

definition board_of :: "(IndexT \<rightharpoonup> CheckerDetector) \<Rightarrow> IndexT \<Rightarrow> CheckerDetector" where
  "board_of boardsAllImages viewId =
     (case boardsAllImages viewId of
        None \<Rightarrow> \<lparr>getCorners = [], getBoards = []\<rparr>
      | Some detector \<Rightarrow> detector)"

fun views_loop :: "(IndexT \<rightharpoonup> CheckerDetector) \<Rightarrow> IndexT \<Rightarrow> (IndexT \<times> View) list \<Rightarrow>
    LineWithPoints list \<Rightarrow> LineWithPoints list option" where
  "views_loop boardsAllImages intrinsicId [] allLinesWithPoints = Some allLinesWithPoints"
| "views_loop boardsAllImages intrinsicId (pv # pvs) allLinesWithPoints =
     (if getIntrinsicId (snd pv) \<noteq> intrinsicId
      then views_loop boardsAllImages intrinsicId pvs allLinesWithPoints
      else
        case retrieveLines (board_of boardsAllImages (fst pv)) of
          None \<Rightarrow> None
        | Some (ok, linesWithPoints) \<Rightarrow>
            if \<not> ok then views_loop boardsAllImages intrinsicId pvs allLinesWithPoints
            else views_loop boardsAllImages intrinsicId pvs
                   (allLinesWithPoints @ linesWithPoints))"

text \<open>
  The dispatch on the camera's class, written twice in the source (on the lines with the
  message \<open>Error estimating distortion\<close>, on the point pairs with \<open>Error estimating reverse
  distortion\<close>). The flag returned is False when the source executes \<open>continue\<close>.
\<close>

definition after_schedule :: "string \<Rightarrow> bool \<times> 'i sstate \<Rightarrow> bool \<times> 'i sstate" where
  "after_schedule msg r =
     (case r of (ok, s) \<Rightarrow> if \<not> ok then (False, log_error msg s) else (True, s))"

definition dispatch :: "'i estimator \<Rightarrow> string \<Rightarrow> 'i sstate \<Rightarrow> (bool \<times> 'i sstate) option" where
  "dispatch est msg s =
     (case dynamicClass (fst s) of
        PinholeRadialK1 \<Rightarrow> Some (after_schedule msg (estimateDistortionK1 est s))
      | PinholeRadialK3 \<Rightarrow> Some (after_schedule msg (estimateDistortionK3 est s))
      | Pinhole3DERadial4 \<Rightarrow> Some (after_schedule msg (estimateDistortion3DER4 est s))
      | Pinhole3DEAnamorphic4 \<Rightarrow> map_option (after_schedule msg) (estimateDistortion3DEA4 est s)
      | Pinhole3DEClassicLD \<Rightarrow> map_option (after_schedule msg) (estimateDistortion3DELD est s)
      | PinholeOther \<Rightarrow> Some (True, log_error ''Incompatible camera distortion model'' s))"

definition log_statistics :: "string \<Rightarrow> Statistics \<Rightarrow> World \<Rightarrow> World" where
  "log_statistics title statistics wd =
     log_entry (LOG_INFO_Median (median statistics))
       (log_entry (LOG_INFO_Mean (mean statistics) (stddev statistics))
         (log_entry (LOG_INFO title) wd))"

text \<open>
  One iteration of the loop over the intrinsics: it either returns from \<open>main\<close> with an
  exit code, or goes on to the next intrinsic (by \<open>continue\<close> or by reaching the end of
  the body) and leaves the intrinsic as the iteration has mutated it.
\<close>

datatype Iteration = Return int World | Next IntrinsicBase World

definition calibrate_intrinsic :: "Library \<Rightarrow> (IndexT \<times> View) list \<Rightarrow>
    (IndexT \<rightharpoonup> CheckerDetector) \<Rightarrow> World \<Rightarrow> IndexT \<times> IntrinsicBase \<Rightarrow> Iteration option" where
  "calibrate_intrinsic lib views boardsAllImages wd0 pi' =
     (let intrinsicId = fst pi' in
      case snd pi' of
        NotPinhole \<Rightarrow>
          Some (Return EXIT_FAILURE (log_entry (LOG_ERROR ''Only work for pinhole cameras'') wd0))
      | IsPinhole cameraPinhole0 \<Rightarrow>
      let wd1 = log_entry (LOG_INFO_Id ''Processing Intrinsic '' intrinsicId) wd0 in
      case views_loop boardsAllImages intrinsicId views [] of
        None \<Rightarrow> None
      | Some allLinesWithPoints \<Rightarrow>
      let hw = real (w cameraPinhole0) * 0.5;
          hh = real (h cameraPinhole0) * 0.5;
          diag = sqrt (hw * hw + hh * hh);
          scale = getScale cameraPinhole0;
          cameraPinhole1 = setScale (diag, diag) cameraPinhole0
      in
      case dispatch (estimateLines lib) ''Error estimating distortion''
             (cameraPinhole1, defaultStatistics lib, allLinesWithPoints, wd1) of
        None \<Rightarrow> None
      | Some (go, cameraPinhole2, statistics2, allLinesWithPoints2, wd2) \<Rightarrow>
      if \<not> go then Some (Next (IsPinhole cameraPinhole2) wd2)
      else
      let wd3 = log_statistics ''Result quality of calibration: '' statistics2 wd2;
          cameraPinhole3 = setScale scale cameraPinhole2;
          (ok, pairs) = generatePoints lib [] cameraPinhole3 allLinesWithPoints2
      in
      if \<not> ok
      then Some (Next (IsPinhole cameraPinhole3)
                  (log_entry (LOG_ERROR ''Error generating points'') wd3))
      else
      case dispatch (estimatePoints lib) ''Error estimating reverse distortion''
             (cameraPinhole3, statistics2, pairs, wd3) of
        None \<Rightarrow> None
      | Some (go', cameraPinhole4, statistics4, points4, wd4) \<Rightarrow>
      if \<not> go' then Some (Next (IsPinhole cameraPinhole4) wd4)
      else Some (Next (IsPinhole cameraPinhole4)
                  (log_statistics ''Result quality of inversion: '' statistics4 wd4)))"

fun intrinsics_loop :: "Library \<Rightarrow> (IndexT \<times> View) list \<Rightarrow> (IndexT \<rightharpoonup> CheckerDetector) \<Rightarrow>
    (IndexT \<times> IntrinsicBase) list \<Rightarrow> (IndexT \<times> IntrinsicBase) list \<Rightarrow> World \<Rightarrow>
    (int \<times> World + (IndexT \<times> IntrinsicBase) list \<times> World) option" where
  "intrinsics_loop lib views boardsAllImages [] processed wd = Some (Inr (processed, wd))"
| "intrinsics_loop lib views boardsAllImages (pi' # rest) processed wd =
     (case calibrate_intrinsic lib views boardsAllImages wd pi' of
        None \<Rightarrow> None
      | Some (Return code wd') \<Rightarrow> Some (Inl (code, wd'))
      | Some (Next intrinsic' wd') \<Rightarrow>
          intrinsics_loop lib views boardsAllImages rest
            (processed @ [(fst pi', intrinsic')]) wd')"

text \<open>
  The part of \<open>aliceVision_main\<close> that follows the command line stage (from line 550 on),
  on detector files that parse. \<open>loaded\<close> is the scene read from the input file (\<open>None\<close>
  when it cannot be read), \<open>files\<close> the detector files, \<open>canSave\<close> whether the output file
  can be written. The result is the exit code, the scene written (if any) and the log
  with the trace of solver calls. File names are left out of the two messages about
  files. The whole function, with the command line stage and the detector files that do
  not parse, is \<open>aliceVision_main_argv\<close> below.
\<close>

record Outcome =
  exitCode :: int
  written :: "SfMData option"
  world :: World

definition aliceVision_main :: "Library \<Rightarrow> SfMData option \<Rightarrow> (IndexT \<rightharpoonup> CheckerDetector) \<Rightarrow>
    bool \<Rightarrow> Outcome option" where
  "aliceVision_main lib loaded files canSave =
     (let wd0 = \<lparr>logs = [], estimateCalls = []\<rparr> in
      case loaded of
        None \<Rightarrow>
          Some \<lparr>exitCode = EXIT_FAILURE, written = None,
                world = log_entry (LOG_ERROR ''The input SfMData file cannot be read.'') wd0\<rparr>
      | Some sfmData \<Rightarrow>
      let boardsAllImages = load_boards files (getViews sfmData) Map.empty in
      case intrinsics_loop lib (getViews sfmData) boardsAllImages (getIntrinsics sfmData) [] wd0 of
        None \<Rightarrow> None
      | Some (Inl (code, wd)) \<Rightarrow> Some \<lparr>exitCode = code, written = None, world = wd\<rparr>
      | Some (Inr (intrinsics, wd)) \<Rightarrow>
          if \<not> canSave
          then Some \<lparr>exitCode = EXIT_FAILURE, written = None,
                     world = log_entry (LOG_ERROR ''The output SfMData file cannot be written.'') wd\<rparr>
          else Some \<lparr>exitCode = EXIT_SUCCESS,
                     written = Some (sfmData\<lparr>getIntrinsics := intrinsics\<rparr>), world = wd\<rparr>)"

text \<open>
  The whole of \<open>aliceVision_main\<close>. The command line stage (lines 526 to 548) has three
  outcomes: the usage is printed and \<open>EXIT_SUCCESS\<close> returned (the help option, or no
  argument at all); an option error is caught and \<open>EXIT_FAILURE\<close> returned; or the
  options are parsed and the program goes on. The file of a view is absent, or holds a
  detector, or does not parse: \<open>boost::json::parse\<close> then throws, nothing catches the
  exception, and the program ends without a return from \<open>main\<close>, which is the result
  \<open>None\<close>. The input scene is loaded before the detector files are read.
\<close>

datatype CommandLine = HelpOrNoArguments | OptionError | Options

datatype DetectorFile = NoFile | BadJson | GoodJson CheckerDetector

definition detector_of :: "DetectorFile \<Rightarrow> CheckerDetector option" where
  "detector_of f = (case f of GoodJson detector \<Rightarrow> Some detector | _ \<Rightarrow> None)"

definition aliceVision_main_argv :: "CommandLine \<Rightarrow> Library \<Rightarrow> SfMData option \<Rightarrow>
    (IndexT \<Rightarrow> DetectorFile) \<Rightarrow> bool \<Rightarrow> Outcome option" where
  "aliceVision_main_argv cmd lib loaded disk canSave =
     (case cmd of
        HelpOrNoArguments \<Rightarrow>
          Some \<lparr>exitCode = EXIT_SUCCESS, written = None,
                world = \<lparr>logs = [], estimateCalls = []\<rparr>\<rparr>
      | OptionError \<Rightarrow>
          Some \<lparr>exitCode = EXIT_FAILURE, written = None,
                world = \<lparr>logs = [], estimateCalls = []\<rparr>\<rparr>
      | Options \<Rightarrow>
          if (case loaded of
                None \<Rightarrow> False
              | Some sfmData \<Rightarrow> list_ex (\<lambda>pv. disk (fst pv) = BadJson) (getViews sfmData))
          then None
          else aliceVision_main lib loaded (\<lambda>viewId. detector_of (disk viewId)) canSave)"

section \<open>Observations and concrete inputs\<close>

text \<open>The world component of a schedule state, and of the result of one iteration.\<close>

definition world_of :: "'i sstate \<Rightarrow> World" where
  "world_of s = snd (snd (snd s))"

definition iteration_world :: "Iteration \<Rightarrow> World" where
  "iteration_world it = (case it of Return code wd \<Rightarrow> wd | Next intrinsic wd \<Rightarrow> wd)"

text \<open>
  A schedule makes at least one solver call and logs nothing but
  \<open>Failed to calibrate\<close>.
\<close>

definition grows :: "World \<Rightarrow> World \<Rightarrow> bool" where
  "grows wd wd' \<longleftrightarrow>
     length (estimateCalls wd) < length (estimateCalls wd') \<and>
     set (logs wd') \<subseteq> insert (LOG_ERROR ''Failed to calibrate'') (set (logs wd))"

text \<open>
  The number of \<open>Failed to calibrate\<close> entries of the log and the number of solver calls
  that failed; every failure is logged when the two agree.
\<close>

definition logged_failures :: "World \<Rightarrow> nat" where
  "logged_failures wd = count_list (logs wd) (LOG_ERROR ''Failed to calibrate'')"

definition failed_calls :: "World \<Rightarrow> nat" where
  "failed_calls wd = length (filter (\<lambda>c. \<not> succeeded c) (estimateCalls wd))"

definition failures_logged :: "World \<Rightarrow> bool" where
  "failures_logged wd \<longleftrightarrow> logged_failures wd = failed_calls wd"

text \<open>
  The cells \<open>b(k, k)\<close> for \<open>k < min(rows, cols)\<close>, read in order with the loop that
  never breaks: the main diagonal of the board as the specification describes it.
\<close>

definition main_diagonal_points :: "CheckerBoard \<Rightarrow> CheckerBoardCorner list \<Rightarrow> Vec2 list option" where
  "main_diagonal_points b corners =
     line_loop b corners (\<lambda>k. False) (\<lambda>k. (k, k)) [0..<min (rows b) (cols b)] []"

definition new_line :: "bool \<Rightarrow> nat \<Rightarrow> nat \<Rightarrow> Vec2 list \<Rightarrow> LineWithPoints" where
  "new_line hz boardIdx i pts =
     \<lparr>angle = pi / 4, dist = 1, horizontal = hz, index = i, board = boardIdx, points = pts\<rparr>"

definition line_ok :: "LineWithPoints \<Rightarrow> bool" where
  "line_ok l \<longleftrightarrow> 10 \<le> length (points l) \<and> angle l = M_PI_4 \<and> dist l = 1"

text \<open>A board of one row of ten cells, all pointing at the only corner.\<close>

definition row_board :: CheckerBoard where
  "row_board = \<lparr>rows = 1, cols = 10, cells = (\<lambda>i j. 0)\<rparr>"

definition row_detector :: CheckerDetector where
  "row_detector = \<lparr>getCorners = [\<lparr>center = (3, 4)\<rparr>], getBoards = [row_board]\<rparr>"

definition row_line :: LineWithPoints where
  "row_line = \<lparr>angle = pi / 4, dist = 1, horizontal = True, index = 0, board = 0,
                points = replicate 10 (3, 4)\<rparr>"

text \<open>A board of ten rows and ten columns whose main diagonal alone is defined.\<close>

definition diag_board :: CheckerBoard where
  "diag_board = \<lparr>rows = 10, cols = 10, cells = (\<lambda>i j. if i = j then 0 else UndefinedIndexT)\<rparr>"

definition diag_detector :: CheckerDetector where
  "diag_detector = \<lparr>getCorners = [\<lparr>center = (0, 0)\<rparr>], getBoards = [diag_board]\<rparr>"

text \<open>A solver that fails at once and leaves everything as it is.\<close>

definition failing_estimator :: "'i estimator" where
  "failing_estimator = (\<lambda>camera statistics items lScale lOffset locks lLines.
     (False, camera, statistics, items))"

definition failing_library :: Library where
  "failing_library =
     \<lparr>estimateLines = failing_estimator, estimatePoints = failing_estimator,
      get_d_pixel = (\<lambda>camera p. p), get_ud_pixel = (\<lambda>camera p. p),
      defaultStatistics = \<lparr>mean = 0, stddev = 0, median = 0\<rparr>\<rparr>"

text \<open>A camera whose round trip is off by one pixel away from the axis \<open>x = 0\<close>.\<close>

definition shifting_library :: Library where
  "shifting_library =
     \<lparr>estimateLines = failing_estimator, estimatePoints = failing_estimator,
      get_d_pixel = (\<lambda>camera p. p),
      get_ud_pixel = (\<lambda>camera p. if fst p = Num 0 then p else (dadd (fst p) (Num 1), snd p)),
      defaultStatistics = \<lparr>mean = 0, stddev = 0, median = 0\<rparr>\<rparr>"

text \<open>A camera whose \<open>get_d_pixel\<close> gives NaN for the first coordinate.\<close>

definition nan_library :: Library where
  "nan_library =
     \<lparr>estimateLines = failing_estimator, estimatePoints = failing_estimator,
      get_d_pixel = (\<lambda>camera p. (NaN, snd p)),
      get_ud_pixel = (\<lambda>camera p. p),
      defaultStatistics = \<lparr>mean = 0, stddev = 0, median = 0\<rparr>\<rparr>"

definition one_point_line :: LineWithPoints where
  "one_point_line = \<lparr>angle = pi / 4, dist = 1, horizontal = True, index = 0, board = 0,
                      points = [(2, 0)]\<rparr>"

definition nan_pair :: PointPair where
  "nan_pair = \<lparr>distortedPoint = (Num 2, Num 0), undistortedPoint = (NaN, Num 0)\<rparr>"

definition origin_pair :: PointPair where
  "origin_pair = \<lparr>distortedPoint = (Num 0, Num 0), undistortedPoint = (Num 0, Num 0)\<rparr>"

definition two_point_line :: LineWithPoints where
  "two_point_line = \<lparr>angle = pi / 4, dist = 1, horizontal = True, index = 0, board = 0,
                      points = [(0, 0), (2, 0)]\<rparr>"

definition k1_camera :: Pinhole where
  "k1_camera = \<lparr>dynamicClass = PinholeRadialK1, w = 6, h = 8, getScale = (1, 1),
                 getOffset = (0, 0), getDistortionParams = [0]\<rparr>"

definition k1_scene :: SfMData where
  "k1_scene = \<lparr>getViews = [], getIntrinsics = [(0, IsPinhole k1_camera)]\<rparr>"

definition sevens :: "real list" where
  "sevens = [7, 7, 7, 7, 7, 7, 7, 7, 7, 7, 7, 7, 7, 7]"

definition a4_camera :: Pinhole where
  "a4_camera = \<lparr>dynamicClass = Pinhole3DEAnamorphic4, w = 6, h = 8, getScale = (1, 1),
                 getOffset = (0, 0), getDistortionParams = sevens\<rparr>"

text \<open>A solver that succeeds and changes nothing.\<close>

definition passing_estimator :: "'i estimator" where
  "passing_estimator = (\<lambda>camera statistics items lScale lOffset locks lLines.
     (True, camera, statistics, items))"

definition passing_library :: Library where
  "passing_library =
     \<lparr>estimateLines = passing_estimator, estimatePoints = passing_estimator,
      get_d_pixel = (\<lambda>camera p. p), get_ud_pixel = (\<lambda>camera p. p),
      defaultStatistics = \<lparr>mean = 0, stddev = 0, median = 0\<rparr>\<rparr>"

text \<open>A scene whose first intrinsic is not a pinhole and whose second is.\<close>

definition mixed_scene :: SfMData where
  "mixed_scene = \<lparr>getViews = [], getIntrinsics = [(0, NotPinhole), (1, IsPinhole k1_camera)]\<rparr>"

text \<open>A scene of one camera with one view, whose detector file holds the one-row board.\<close>

definition one_view_scene :: SfMData where
  "one_view_scene = \<lparr>getViews = [(7, \<lparr>getIntrinsicId = 0\<rparr>)],
                      getIntrinsics = [(0, IsPinhole k1_camera)]\<rparr>"

definition one_view_files :: "IndexT \<rightharpoonup> CheckerDetector" where
  "one_view_files = [7 \<mapsto> row_detector]"

text \<open>
  A schedule read as a table: the stages are run in order, each on the state the previous
  one left, and the first failure logs \<open>Failed to calibrate\<close> and stops. The classic LD
  schedule is shown below to be the run of its table.
\<close>

type_synonym stage = "bool \<times> bool \<times> bool list \<times> bool"

fun run_stages :: "'i estimator \<Rightarrow> stage list \<Rightarrow> 'i sstate \<Rightarrow> bool \<times> 'i sstate" where
  "run_stages est [] s = (True, s)"
| "run_stages est (st # sts) s =
     (case estimate est s (fst st) (fst (snd st)) (fst (snd (snd st))) (snd (snd (snd st))) of
        (ok, s1) \<Rightarrow>
          if \<not> ok then (False, log_error ''Failed to calibrate'' s1)
          else run_stages est sts s1)"

definition LD_stages :: "stage list" where
  "LD_stages =
     [(True, True, [True, True, True, True, True], False),
      (True, True, [False, True, True, True, True], False),
      (True, False, [False, True, True, True, True], False),
      (True, False, [False, True, False, False, True], False),
      (True, False, [False, False, False, False, False], True)]"

text \<open>
  What the program expects of the solver: a distortion parameter whose lock is set comes
  back unchanged. The property of the solver, and the same property of one recorded call.
\<close>

definition respects_locks :: "'i estimator \<Rightarrow> bool" where
  "respects_locks est \<longleftrightarrow>
     (\<forall>camera statistics items lScale lOffset locks lLines i.
        i < length locks \<and> locks ! i \<longrightarrow>
        getDistortionParams (fst (snd (est camera statistics items lScale lOffset locks lLines))) ! i
          = getDistortionParams camera ! i)"

definition call_locks :: "EstimateCall \<Rightarrow> stage" where
  "call_locks c = (lockScale c, lockOffset c, locksDistortions c, lockLines c)"

definition call_respects :: "EstimateCall \<Rightarrow> bool" where
  "call_respects c \<longleftrightarrow>
     (\<forall>i. i < length (locksDistortions c) \<and> locksDistortions c ! i \<longrightarrow>
        getDistortionParams (cameraAfter c) ! i = getDistortionParams (cameraBefore c) ! i)"

text \<open>Each call of a trace starts from the camera the previous call left.\<close>

fun chained :: "Pinhole \<Rightarrow> EstimateCall list \<Rightarrow> bool" where
  "chained camera [] = True"
| "chained camera (c # cs) = (cameraBefore c = camera \<and> chained (cameraAfter c) cs)"

text \<open>The calls made between two worlds.\<close>

definition new_calls :: "World \<Rightarrow> World \<Rightarrow> EstimateCall list" where
  "new_calls wd wd' = drop (length (estimateCalls wd)) (estimateCalls wd')"

text \<open>
  A solver that succeeds, adds 1 to the first distortion parameter when it is unlocked
  and touches nothing else.
\<close>

definition bumping_estimator :: "'i estimator" where
  "bumping_estimator = (\<lambda>camera statistics items lScale lOffset locks lLines.
     (True,
      (if locks \<noteq> [] \<and> \<not> locks ! 0
       then camera\<lparr>getDistortionParams :=
              (getDistortionParams camera)[0 := getDistortionParams camera ! 0 + 1]\<rparr>
       else camera),
      statistics, items))"

definition ld_camera :: Pinhole where
  "ld_camera = \<lparr>dynamicClass = Pinhole3DEClassicLD, w = 6, h = 8, getScale = (1, 1),
                 getOffset = (0, 0), getDistortionParams = [9, 9, 9, 9, 9]\<rparr>"

definition ld_start :: "LineWithPoints sstate" where
  "ld_start = (ld_camera, \<lparr>mean = 0, stddev = 0, median = 0\<rparr>, [],
               \<lparr>logs = [], estimateCalls = []\<rparr>)"

section \<open>Properties of retrieveLines\<close>

lemma family_loop_inv:
  assumes "family_loop inner hz bidx is acc = Some ls"
    and "\<forall>l \<in> set acc. P l"
    and step: "\<forall>i pts. inner i = Some pts \<and> 10 \<le> length pts \<longrightarrow>
      P \<lparr>angle = M_PI_4, dist = 1, horizontal = hz, index = i, board = bidx, points = pts\<rparr>"
  shows "\<forall>l \<in> set ls. P l"
  using assms(1,2)
proof (induction "is" arbitrary: acc)
  case Nil
  then show ?case by simp
next
  case (Cons i "is")
  from Cons.prems(1) obtain pts where pts: "inner i = Some pts"
    by (cases "inner i") simp_all
  show ?case
  proof (cases "length pts < 10")
    case True
    with Cons.prems(1) pts have "family_loop inner hz bidx is acc = Some ls"
      by simp
    then show ?thesis using Cons.IH Cons.prems(2) by blast
  next
    case False
    with Cons.prems(1) pts have run: "family_loop inner hz bidx is
        (acc @ [\<lparr>angle = M_PI_4, dist = 1, horizontal = hz, index = i, board = bidx, points = pts\<rparr>]) = Some ls"
      by simp
    from False pts step have "P \<lparr>angle = M_PI_4, dist = 1, horizontal = hz, index = i, board = bidx, points = pts\<rparr>"
      by simp
    with Cons.prems(2) have "\<forall>l \<in> set (acc @ [\<lparr>angle = M_PI_4, dist = 1, horizontal = hz, index = i, board = bidx, points = pts\<rparr>]). P l"
      by simp
    with run show ?thesis using Cons.IH by blast
  qed
qed

lemma family_loop_ok:
  "family_loop inner hz bidx is acc = Some ls \<Longrightarrow> \<forall>l \<in> set acc. line_ok l \<Longrightarrow> \<forall>l \<in> set ls. line_ok l"
  by (erule family_loop_inv) (simp_all add: line_ok_def)

lemma board_lines_ok:
  "board_lines corners b bidx acc = Some ls \<Longrightarrow> \<forall>l \<in> set acc. line_ok l \<Longrightarrow> \<forall>l \<in> set ls. line_ok l"
  unfolding board_lines_def
  by (auto split: option.splits dest!: family_loop_ok)

lemma boards_loop_ok:
  "boards_loop corners bs bidx acc = Some ls \<Longrightarrow> \<forall>l \<in> set acc. line_ok l \<Longrightarrow> \<forall>l \<in> set ls. line_ok l"
proof (induction bs arbitrary: bidx acc)
  case Nil
  then show ?case by simp
next
  case (Cons b bs)
  from Cons.prems(1) obtain mid where mid: "board_lines corners b bidx acc = Some mid"
    and rest: "boards_loop corners bs (bidx + 1) mid = Some ls"
    by (auto split: option.splits)
  from board_lines_ok[OF mid Cons.prems(2)] have "\<forall>l \<in> set mid. line_ok l" .
  with rest show ?case using Cons.IH by blast
qed

lemma undef_ne0: "(0 :: 32 word) \<noteq> UndefinedIndexT"
  by (simp add: UndefinedIndexT_def)

lemma row_detector_lines: "retrieveLines row_detector = Some (False, [row_line])"
  by (simp add: retrieveLines_def row_detector_def board_lines_def row_board_def
    horizontal_points_def vertical_points_def diagonal1_points_def diagonal2_points_def
    diagonal3_points_def upt_rec undef_ne0 row_line_def M_PI_4_def numeral_eq_Suc Let_def)

text \<open>
  C8: every line that \<open>retrieveLines\<close> leaves in its output vector has at least 10
  points, angle \<open>\<pi>/4\<close> and dist 1; a candidate with fewer than 10 defined corners is
  not in the output.
\<close>

theorem retrieveLines_lines_ok:
  "retrieveLines detect = Some (ok, ls) \<Longrightarrow>
     \<forall>l \<in> set ls. 10 \<le> length (points l) \<and> angle l = pi / 4 \<and> dist l = 1"
  unfolding retrieveLines_def
  by (auto split: option.splits if_splits dest!: boards_loop_ok simp: line_ok_def M_PI_4_def)

text \<open>The board of one row of ten corners gives one line, which has the three properties.\<close>

theorem retrieveLines_lines_ok_witness:
  "retrieveLines row_detector = Some (False, [row_line]) \<and>
   10 \<le> length (points row_line) \<and> angle row_line = pi / 4 \<and> dist row_line = 1"
  using retrieveLines_lines_ok[OF row_detector_lines] row_detector_lines by simp

lemma line_loop_break:
  "line_loop b cs (\<lambda>k. n \<le> k) cell [m..<u] pts =
   line_loop b cs (\<lambda>k. False) cell [m..<min u n] pts"
proof (induction "u - m" arbitrary: m pts)
  case 0
  then show ?case by simp
next
  case (Suc d)
  then have mu: "m < u" and d: "d = u - Suc m" by simp_all
  show ?case
  proof (cases "n \<le> m")
    case True
    then show ?thesis using mu by (simp add: upt_conv_Cons)
  next
    case False
    then have "m < min u n" using mu by simp
    then show ?thesis
      using mu Suc.hyps(1)[OF d] by (simp add: upt_conv_Cons Let_def)
  qed
qed

lemma diagonal1_main: "diagonal1_points b cs 0 = main_diagonal_points b cs"
  by (simp add: diagonal1_points_def main_diagonal_points_def line_loop_break min.commute)

lemma diagonal2_main: "diagonal2_points b cs 0 = main_diagonal_points b cs"
  by (simp add: diagonal2_points_def main_diagonal_points_def line_loop_break)

lemma family_loop_appends:
  "family_loop inner hz bidx is acc = Some ls \<Longrightarrow>
     ls = acc @ map (\<lambda>i. new_line hz bidx i (the (inner i)))
                 (filter (\<lambda>i. 10 \<le> length (the (inner i))) is)"
proof (induction "is" arbitrary: acc)
  case Nil
  then show ?case by simp
next
  case (Cons i "is")
  from Cons.prems obtain pts where pts: "inner i = Some pts"
    by (cases "inner i") simp_all
  show ?case
  proof (cases "length pts < 10")
    case True
    with Cons.prems pts have "family_loop inner hz bidx is acc = Some ls" by simp
    from Cons.IH[OF this] True pts show ?thesis by simp
  next
    case False
    with Cons.prems pts have "family_loop inner hz bidx is
        (acc @ [new_line hz bidx i pts]) = Some ls"
      by (simp add: new_line_def M_PI_4_def)
    from Cons.IH[OF this] False pts show ?thesis by simp
  qed
qed

lemma family_loop_count_mono:
  "family_loop inner hz bidx is acc = Some ls \<Longrightarrow> count_list acc l \<le> count_list ls l"
  by (drule family_loop_appends) simp

lemma family_loop_count_emitted:
  assumes "family_loop inner hz bidx is acc = Some ls"
    and "i \<in> set is" and "inner i = Some pts" and "10 \<le> length pts"
  shows "count_list acc (new_line hz bidx i pts) + 1 \<le> count_list ls (new_line hz bidx i pts)"
proof -
  let ?new = "map (\<lambda>i. new_line hz bidx i (the (inner i)))
                 (filter (\<lambda>i. 10 \<le> length (the (inner i))) is)"
  have "new_line hz bidx i pts \<in> set ?new"
    using assms(2-4) by force
  then have "1 \<le> count_list ?new (new_line hz bidx i pts)"
    by (metis count_list_0_iff not_less_eq_eq le_zero_eq One_nat_def)
  moreover have "ls = acc @ ?new"
    using assms(1) by (rule family_loop_appends)
  ultimately show ?thesis by simp
qed

lemma board_lines_count_mono:
  "board_lines cs b bidx acc = Some ls \<Longrightarrow> count_list acc l \<le> count_list ls l"
  unfolding board_lines_def
  by (auto split: option.splits dest!: family_loop_count_mono[where l = l])

lemma board_lines_main_diagonal_twice:
  assumes run: "board_lines cs b bidx acc = Some ls"
    and diag: "main_diagonal_points b cs = Some pts" and len: "10 \<le> length pts"
  shows "count_list acc (new_line False bidx 0 pts) + 2 \<le> count_list ls (new_line False bidx 0 pts)"
proof -
  let ?L = "new_line False bidx 0 pts"
  from run obtain l1 l2 l3 l4 where
    f1: "family_loop (horizontal_points b cs) True bidx [0..<rows b] acc = Some l1" and
    f2: "family_loop (vertical_points b cs) False bidx [0..<cols b] l1 = Some l2" and
    f3: "family_loop (diagonal1_points b cs) False bidx [0..<rows b] l2 = Some l3" and
    f4: "family_loop (diagonal2_points b cs) False bidx [0..<cols b] l3 = Some l4" and
    f5: "family_loop (diagonal3_points b cs) False bidx [0..<cols b] l4 = Some ls"
    unfolding board_lines_def by (auto split: option.splits)
  have nonempty: "0 < min (rows b) (cols b)"
  proof (rule ccontr)
    assume "\<not> 0 < min (rows b) (cols b)"
    then have "min (rows b) (cols b) = 0" by (auto simp: min_def)
    then have "main_diagonal_points b cs = Some []"
      unfolding main_diagonal_points_def by simp
    with diag len show False by simp
  qed
  then have r0: "0 \<in> set [0..<rows b]" and c0: "0 \<in> set [0..<cols b]" by simp_all
  have "count_list acc ?L \<le> count_list l1 ?L" using f1 by (rule family_loop_count_mono)
  also have "\<dots> \<le> count_list l2 ?L" using f2 by (rule family_loop_count_mono)
  finally have a: "count_list acc ?L \<le> count_list l2 ?L" .
  have b: "count_list l2 ?L + 1 \<le> count_list l3 ?L"
    using family_loop_count_emitted[OF f3 r0 _ len] diag by (simp add: diagonal1_main)
  have c: "count_list l3 ?L + 1 \<le> count_list l4 ?L"
    using family_loop_count_emitted[OF f4 c0 _ len] diag by (simp add: diagonal2_main)
  have d: "count_list l4 ?L \<le> count_list ls ?L" using f5 by (rule family_loop_count_mono)
  from a b c d show ?thesis by linarith
qed

lemma boards_loop_count_mono:
  "boards_loop cs bs bidx acc = Some ls \<Longrightarrow> count_list acc l \<le> count_list ls l"
proof (induction bs arbitrary: bidx acc)
  case Nil
  then show ?case by simp
next
  case (Cons b bs)
  from Cons.prems obtain mid where mid: "board_lines cs b bidx acc = Some mid"
    and rest: "boards_loop cs bs (bidx + 1) mid = Some ls"
    by (auto split: option.splits)
  from board_lines_count_mono[OF mid] Cons.IH[OF rest] show ?case
    by (meson order_trans)
qed

lemma boards_loop_main_diagonal_twice:
  "boards_loop cs bs bidx acc = Some ls \<Longrightarrow> n < length bs \<Longrightarrow>
   main_diagonal_points (bs ! n) cs = Some pts \<Longrightarrow> 10 \<le> length pts \<Longrightarrow>
   count_list acc (new_line False (bidx + n) 0 pts) + 2 \<le> count_list ls (new_line False (bidx + n) 0 pts)"
proof (induction bs arbitrary: bidx acc n)
  case Nil
  then show ?case by simp
next
  case (Cons b bs)
  from Cons.prems(1) obtain mid where mid: "board_lines cs b bidx acc = Some mid"
    and rest: "boards_loop cs bs (bidx + 1) mid = Some ls"
    by (auto split: option.splits)
  show ?case
  proof (cases n)
    case 0
    with Cons.prems have "count_list acc (new_line False bidx 0 pts) + 2 \<le> count_list mid (new_line False bidx 0 pts)"
      using board_lines_main_diagonal_twice[OF mid] by simp
    moreover have "count_list mid (new_line False bidx 0 pts) \<le> count_list ls (new_line False bidx 0 pts)"
      using rest by (rule boards_loop_count_mono)
    ultimately show ?thesis using 0 by simp
  next
    case (Suc k)
    with Cons.prems have "count_list mid (new_line False (bidx + 1 + k) 0 pts) + 2
        \<le> count_list ls (new_line False (bidx + 1 + k) 0 pts)"
      using Cons.IH[OF rest, of k] by simp
    moreover have "count_list acc (new_line False (bidx + 1 + k) 0 pts)
        \<le> count_list mid (new_line False (bidx + 1 + k) 0 pts)"
      using mid by (rule board_lines_count_mono)
    ultimately show ?thesis using Suc by simp
  qed
qed

text \<open>
  C9: the first diagonal family started at row 0 and the second diagonal family started
  at column 0 both read the cells \<open>b(k, k)\<close>, \<open>k < min(rows, cols)\<close>; when that diagonal
  holds at least 10 defined corners, the output of \<open>retrieveLines\<close> holds the line
  with these points (index 0, the board's index) at least twice.
\<close>

theorem diagonal_families_overlap:
  "diagonal1_points b cs 0 = main_diagonal_points b cs \<and>
   diagonal2_points b cs 0 = main_diagonal_points b cs \<and>
   (\<forall>ok ls n pts. retrieveLines detect = Some (ok, ls) \<and> n < length (getBoards detect) \<and>
      main_diagonal_points (getBoards detect ! n) (getCorners detect) = Some pts \<and>
      10 \<le> length pts \<longrightarrow>
      2 \<le> count_list ls (new_line False n 0 pts))"
proof (intro conjI allI impI)
  show "diagonal1_points b cs 0 = main_diagonal_points b cs" by (rule diagonal1_main)
  show "diagonal2_points b cs 0 = main_diagonal_points b cs" by (rule diagonal2_main)
next
  fix ok ls n pts
  assume a: "retrieveLines detect = Some (ok, ls) \<and> n < length (getBoards detect) \<and>
      main_diagonal_points (getBoards detect ! n) (getCorners detect) = Some pts \<and>
      10 \<le> length pts"
  then have "boards_loop (getCorners detect) (getBoards detect) 0 [] = Some ls"
    by (auto simp: retrieveLines_def split: option.splits if_splits)
  from boards_loop_main_diagonal_twice[OF this, of n pts] a
  show "2 \<le> count_list ls (new_line False n 0 pts)" by simp
qed

lemma diag_board_diagonal:
  "main_diagonal_points diag_board [\<lparr>center = (0, 0)\<rparr>] = Some (replicate 10 (0, 0))"
  by (simp add: main_diagonal_points_def diag_board_def upt_rec undef_ne0 numeral_eq_Suc)

lemma diag_detector_lines:
  "retrieveLines diag_detector =
     Some (True, [new_line False 0 0 (replicate 10 (0, 0)), new_line False 0 0 (replicate 10 (0, 0))])"
  by (simp add: retrieveLines_def diag_detector_def board_lines_def diag_board_def
    horizontal_points_def vertical_points_def diagonal1_points_def diagonal2_points_def
    diagonal3_points_def upt_rec undef_ne0 new_line_def M_PI_4_def numeral_eq_Suc Let_def)

text \<open>On the board whose main diagonal alone is defined the output is that line, twice.\<close>

theorem diagonal_families_overlap_witness:
  "retrieveLines diag_detector =
     Some (True, [new_line False 0 0 (replicate 10 (0, 0)), new_line False 0 0 (replicate 10 (0, 0))]) \<and>
   diagonal1_points diag_board [\<lparr>center = (0, 0)\<rparr>] 0 = Some (replicate 10 (0, 0)) \<and>
   diagonal2_points diag_board [\<lparr>center = (0, 0)\<rparr>] 0 = Some (replicate 10 (0, 0)) \<and>
   2 \<le> count_list [new_line False 0 0 (replicate 10 (0, 0)), new_line False 0 0 (replicate 10 (0, 0))]
         (new_line False 0 0 (replicate 10 (0, 0)))"
  using diagonal_families_overlap[of diag_board "[\<lparr>center = (0, 0)\<rparr>]" diag_detector]
    diag_detector_lines diag_board_diagonal
  by (simp add: diag_detector_def)

section \<open>Properties of generatePoints\<close>

lemma points_loop_filter:
  "points_loop lib camera pts pairs = pairs @
     filter (\<lambda>pp. \<not> dgt (vnorm (vsub (get_ud_pixel lib camera (undistortedPoint pp))
                                      (distortedPoint pp))) (Num (1 / 1000)))
       (map (\<lambda>pt. \<lparr>distortedPoint = to_double pt,
                    undistortedPoint = get_d_pixel lib camera (to_double pt)\<rparr>) pts)"
  by (induction pts arbitrary: pairs) (simp_all add: Let_def)

lemma lines_loop_filter:
  "lines_loop lib camera ls pairs = pairs @
     filter (\<lambda>pp. \<not> dgt (vnorm (vsub (get_ud_pixel lib camera (undistortedPoint pp))
                                      (distortedPoint pp))) (Num (1 / 1000)))
       (map (\<lambda>pt. \<lparr>distortedPoint = to_double pt,
                    undistortedPoint = get_d_pixel lib camera (to_double pt)\<rparr>)
          (concat (map points ls)))"
  by (induction ls arbitrary: pairs) (simp_all add: points_loop_filter)

lemma not_dgt_Num: "\<not> dgt a (Num c) \<Longrightarrow> dle a (Num c) \<or> a = NaN"
  by (cases a) simp_all

lemma nan_points:
  "generatePoints nan_library [] k1_camera [one_point_line] = (True, [nan_pair])"
  by (simp add: generatePoints_def nan_library_def one_point_line_def nan_pair_def to_double_def
      vnorm_def vsub_def dsub_def Let_def)

text \<open>
  C6, as stated, fails: with a camera whose \<open>get_d_pixel\<close> gives NaN, the pair made from
  the corner \<open>(2, 0)\<close> is accepted, its round trip error is NaN, and NaN is not at most
  1e-3.
\<close>

theorem nan_pair_accepted:
  "generatePoints nan_library [] k1_camera [one_point_line] = (True, [nan_pair]) \<and>
   vnorm (vsub (get_ud_pixel nan_library k1_camera (undistortedPoint nan_pair))
               (distortedPoint nan_pair)) = NaN \<and>
   \<not> dle (vnorm (vsub (get_ud_pixel nan_library k1_camera (undistortedPoint nan_pair))
                      (distortedPoint nan_pair))) (Num (1 / 1000))"
  by (simp add: nan_points) (simp add: nan_library_def nan_pair_def vnorm_def vsub_def dsub_def)

text \<open>
  C6, amended: the pairs that \<open>generatePoints\<close> appends are the candidates, in order, for
  which the test \<open>err > 1e-3\<close> is false; the round trip error of each of them is at most
  1e-3 or is NaN; the others are left out, and the function returns true.
\<close>

theorem generatePoints_round_trip:
  "generatePoints lib pairs camera lineWithPoints = (ok, out) \<Longrightarrow>
     ok \<and>
     out = pairs @
        filter (\<lambda>pp. \<not> dgt (vnorm (vsub (get_ud_pixel lib camera (undistortedPoint pp))
                                         (distortedPoint pp))) (Num (1 / 1000)))
          (map (\<lambda>pt. \<lparr>distortedPoint = to_double pt,
                       undistortedPoint = get_d_pixel lib camera (to_double pt)\<rparr>)
             (concat (map points lineWithPoints))) \<and>
     (\<forall>pp \<in> set (drop (length pairs) out).
        dle (vnorm (vsub (get_ud_pixel lib camera (undistortedPoint pp)) (distortedPoint pp)))
            (Num (1 / 1000)) \<or>
        vnorm (vsub (get_ud_pixel lib camera (undistortedPoint pp)) (distortedPoint pp)) = NaN)"
  by (auto simp: generatePoints_def lines_loop_filter dest: not_dgt_Num)

lemma shifting_points:
  "generatePoints shifting_library [] k1_camera [two_point_line] = (True, [origin_pair])"
  by (simp add: generatePoints_def shifting_library_def two_point_line_def origin_pair_def
      to_double_def vnorm_def vsub_def dsub_def Let_def)

text \<open>Of the two points of the line, the one whose round trip is off by a pixel is dropped.\<close>

theorem generatePoints_round_trip_witness:
  "generatePoints shifting_library [] k1_camera [two_point_line] = (True, [origin_pair]) \<and>
   dle (vnorm (vsub (get_ud_pixel shifting_library k1_camera (undistortedPoint origin_pair))
                    (distortedPoint origin_pair))) (Num (1 / 1000))"
proof -
  have "vnorm (vsub (get_ud_pixel shifting_library k1_camera (undistortedPoint origin_pair))
                    (distortedPoint origin_pair)) \<noteq> NaN"
    by (simp add: shifting_library_def origin_pair_def vnorm_def vsub_def dsub_def)
  with generatePoints_round_trip[OF shifting_points] shifting_points show ?thesis
    by simp
qed

section \<open>Properties of the schedules\<close>

lemma world_of_tuple [simp]: "world_of (camera, statistics, items, wd) = wd"
  by (simp add: world_of_def)

lemma log_entry_simps [simp]:
  "logs (log_entry e wd) = logs wd @ [e]"
  "estimateCalls (log_entry e wd) = estimateCalls wd"
  by (simp_all add: log_entry_def)

lemma world_of_log_error [simp]:
  "world_of (log_error msg s) = log_entry (LOG_ERROR msg) (world_of s)"
  by (cases s) (simp add: world_of_def log_error_def)

text \<open>
  C4: the initialisation of the anamorphic schedule writes the indices 0 to 3 and 5 to
  13 and leaves index 4 as it was. On a vector of fourteen sevens, entry 4 is 7 after the
  initialisation, and 7 is what the first solver stage receives.
\<close>

theorem anamorphic_entry_4_kept:
  "initParams3DEA4 sevens = Some [0, 0, 0, 0, 7, 0, 0, 0, 0, 0, 0, 1, 1, 1] \<and>
   map_option (map (\<lambda>c. getDistortionParams (cameraBefore c) ! 4) \<circ> estimateCalls \<circ> world_of \<circ> snd)
     (estimateDistortion3DEA4 failing_estimator
        (a4_camera, \<lparr>mean = 0, stddev = 0, median = 0\<rparr>, [] :: LineWithPoints list,
         \<lparr>logs = [], estimateCalls = []\<rparr>)) = Some [7]"
  by (simp add: initParams3DEA4_def sevens_def estimateDistortion3DEA4_def a4_camera_def
      failing_estimator_def estimate_def setDistortionParams_def Let_def log_error_def world_of_def)

text \<open>The classic LD schedule is the run of its table of stages.\<close>

lemma LD_as_stages:
  "estimateDistortion3DELD est (camera, statistics, items, wd) =
     (case initParams3DELD (getDistortionParams camera) of
        None \<Rightarrow> None
      | Some params \<Rightarrow>
          Some (run_stages est LD_stages (setDistortionParams params camera, statistics, items, wd)))"
  by (simp add: estimateDistortion3DELD_def LD_stages_def Let_def split: option.splits prod.splits)

lemma estimate_call:
  assumes "estimate est (camera, statistics, items, wd) a b l c = (ok, s')"
  shows "\<exists>camera' statistics' items' call.
     s' = (camera', statistics', items', wd\<lparr>estimateCalls := estimateCalls wd @ [call]\<rparr>) \<and>
     call_locks call = (a, b, l, c) \<and> cameraBefore call = camera \<and> cameraAfter call = camera' \<and>
     succeeded call = ok \<and> (respects_locks est \<longrightarrow> call_respects call)"
proof -
  obtain ok' c' st' it' where e: "est camera statistics items a b l c = (ok', c', st', it')"
    by (cases "est camera statistics items a b l c") auto
  have "respects_locks est \<longrightarrow> (\<forall>i. i < length l \<and> l ! i \<longrightarrow>
      getDistortionParams c' ! i = getDistortionParams camera ! i)"
  proof (intro impI allI)
    fix i assume r: "respects_locks est" and i: "i < length l \<and> l ! i"
    from r i have "getDistortionParams (fst (snd (est camera statistics items a b l c))) ! i
          = getDistortionParams camera ! i"
      unfolding respects_locks_def by blast
    with e show "getDistortionParams c' ! i = getDistortionParams camera ! i" by simp
  qed
  moreover from assms e have "ok' = ok" and "s' = (c'\<lparr>dynamicClass := dynamicClass camera\<rparr>, st', it',
      wd\<lparr>estimateCalls := estimateCalls wd @
        [\<lparr>lockScale = a, lockOffset = b, locksDistortions = l, lockLines = c,
          cameraBefore = camera, cameraAfter = c'\<lparr>dynamicClass := dynamicClass camera\<rparr>,
          succeeded = ok'\<rparr>]\<rparr>)"
    by (auto simp: estimate_def Let_def)
  ultimately show ?thesis
    by (intro exI[of _ "c'\<lparr>dynamicClass := dynamicClass camera\<rparr>"] exI[of _ st'] exI[of _ it']
          exI[of _ "\<lparr>lockScale = a, lockOffset = b, locksDistortions = l, lockLines = c,
          cameraBefore = camera, cameraAfter = c'\<lparr>dynamicClass := dynamicClass camera\<rparr>,
          succeeded = ok'\<rparr>"])
       (simp add: call_locks_def call_respects_def)
qed

lemma run_stages_trace:
  "run_stages est stages s = (ok, s') \<Longrightarrow>
     \<exists>new. estimateCalls (world_of s') = estimateCalls (world_of s) @ new \<and>
       map call_locks new = take (length new) stages \<and>
       (ok \<longrightarrow> length new = length stages) \<and>
       (stages \<noteq> [] \<longrightarrow> new \<noteq> []) \<and>
       chained (fst s) new \<and>
       (respects_locks est \<longrightarrow> list_all call_respects new)"
proof (induction stages arbitrary: s)
  case Nil
  then show ?case by simp
next
  case (Cons st sts)
  obtain camera statistics items wd where s: "s = (camera, statistics, items, wd)"
    by (cases s) auto
  obtain ok1 s1 where e: "estimate est (camera, statistics, items, wd)
      (fst st) (fst (snd st)) (fst (snd (snd st))) (snd (snd (snd st))) = (ok1, s1)"
    by (cases "estimate est (camera, statistics, items, wd)
      (fst st) (fst (snd st)) (fst (snd (snd st))) (snd (snd (snd st)))") auto
  from estimate_call[OF e] obtain camera' statistics' items' call where
    s1: "s1 = (camera', statistics', items', wd\<lparr>estimateCalls := estimateCalls wd @ [call]\<rparr>)"
    and call: "call_locks call = st" "cameraBefore call = camera" "cameraAfter call = camera'"
      "respects_locks est \<longrightarrow> call_respects call"
    by auto
  show ?case
  proof (cases ok1)
    case False
    with Cons.prems s e have "s' = log_error ''Failed to calibrate'' s1" "\<not> ok" by auto
    with s s1 call show ?thesis
      by (intro exI[of _ "[call]"]) simp
  next
    case True
    with Cons.prems s e have "run_stages est sts s1 = (ok, s')" by simp
    from Cons.IH[OF this] obtain new where
      new: "estimateCalls (world_of s') = estimateCalls (world_of s1) @ new"
        "map call_locks new = take (length new) sts"
        "ok \<longrightarrow> length new = length sts"
        "chained (fst s1) new"
        "respects_locks est \<longrightarrow> list_all call_respects new"
      by blast
    with s s1 call show ?thesis
      by (intro exI[of _ "call # new"]) simp
  qed
qed

lemma call_respects_nth:
  "call_respects c \<Longrightarrow> locksDistortions c = l \<Longrightarrow> i < length l \<Longrightarrow> l ! i \<Longrightarrow>
     getDistortionParams (cameraAfter c) ! i = getDistortionParams (cameraBefore c) ! i"
  by (simp add: call_respects_def)

lemma initParams3DELD_five:
  "length params = 5 \<Longrightarrow> initParams3DELD params = Some [0, pi / 2, 0, 0, 0]"
  by (auto simp: initParams3DELD_def length_Suc_conv numeral_eq_Suc M_PI_2_def)

text \<open>
  C7: in the classic LD schedule on a camera of five distortion parameters, with a solver
  that leaves locked parameters unchanged, the first stage receives the vector
  \<open>[0, \<pi>/2, 0, 0, 0]\<close>; a run in which every stage succeeds makes five calls; the fourth
  call passes the locks \<open>[False, True, False, False, True]\<close> with offset and lines free, so
  that entries 1 and 4 come out of it as they went in, which is \<open>\<pi>/2\<close> and 0; the fifth call
  passes five unset locks with the lines locked.
\<close>

theorem classic_LD_schedule:
  assumes len: "length (getDistortionParams camera) = 5"
    and resp: "respects_locks est"
    and run: "estimateDistortion3DELD est (camera, statistics, items, wd) = Some (ok, s')"
  shows "new_calls wd (world_of s') \<noteq> [] \<and>
     getDistortionParams (cameraBefore (hd (new_calls wd (world_of s')))) = [0, pi / 2, 0, 0, 0] \<and>
     (ok \<longrightarrow> length (new_calls wd (world_of s')) = 5) \<and>
     (4 \<le> length (new_calls wd (world_of s')) \<longrightarrow>
        call_locks (new_calls wd (world_of s') ! 3) =
          (True, False, [False, True, False, False, True], False) \<and>
        getDistortionParams (cameraAfter (new_calls wd (world_of s') ! 3)) ! 1 =
          getDistortionParams (cameraBefore (new_calls wd (world_of s') ! 3)) ! 1 \<and>
        getDistortionParams (cameraAfter (new_calls wd (world_of s') ! 3)) ! 4 =
          getDistortionParams (cameraBefore (new_calls wd (world_of s') ! 3)) ! 4 \<and>
        getDistortionParams (cameraAfter (new_calls wd (world_of s') ! 3)) ! 1 = pi / 2 \<and>
        getDistortionParams (cameraAfter (new_calls wd (world_of s') ! 3)) ! 4 = 0) \<and>
     (5 \<le> length (new_calls wd (world_of s')) \<longrightarrow>
        call_locks (new_calls wd (world_of s') ! 4) =
          (True, False, [False, False, False, False, False], True))"
proof -
  let ?cam0 = "setDistortionParams [0, pi / 2, 0, 0, 0] camera"
  from run len have rs: "run_stages est LD_stages (?cam0, statistics, items, wd) = (ok, s')"
    by (simp add: LD_as_stages initParams3DELD_five)
  from run_stages_trace[OF rs] resp obtain new where
    calls: "estimateCalls (world_of s') = estimateCalls wd @ new" and
    locks: "map call_locks new = take (length new) LD_stages" and
    full: "ok \<longrightarrow> length new = 5" and
    ne: "new \<noteq> []" and
    ch: "chained ?cam0 new" and
    rl: "list_all call_respects new"
    by (auto simp: LD_stages_def)
  have nc: "new_calls wd (world_of s') = new"
    by (simp add: new_calls_def calls)
  from ne obtain c1 r1 where n1: "new = c1 # r1" by (cases new) auto
  with ch have first: "getDistortionParams (cameraBefore (hd new)) = [0, pi / 2, 0, 0, 0]"
    by (simp add: setDistortionParams_def)
  have four: "call_locks (new ! 3) = (True, False, [False, True, False, False, True], False) \<and>
        getDistortionParams (cameraAfter (new ! 3)) ! 1 =
          getDistortionParams (cameraBefore (new ! 3)) ! 1 \<and>
        getDistortionParams (cameraAfter (new ! 3)) ! 4 =
          getDistortionParams (cameraBefore (new ! 3)) ! 4 \<and>
        getDistortionParams (cameraAfter (new ! 3)) ! 1 = pi / 2 \<and>
        getDistortionParams (cameraAfter (new ! 3)) ! 4 = 0" if l4: "4 \<le> length new"
  proof -
    from l4 obtain c1 c2 c3 c4 rest where n: "new = c1 # c2 # c3 # c4 # rest"
      by (auto simp: length_Suc_conv numeral_eq_Suc Suc_le_length_iff)
    from locks n have
      k1: "locksDistortions c1 = [True, True, True, True, True]" and
      k2: "locksDistortions c2 = [False, True, True, True, True]" and
      k3: "locksDistortions c3 = [False, True, True, True, True]" and
      k4: "locksDistortions c4 = [False, True, False, False, True]" and
      k4': "call_locks c4 = (True, False, [False, True, False, False, True], False)"
      by (auto simp: LD_stages_def call_locks_def)
    from rl n have r: "call_respects c1" "call_respects c2" "call_respects c3" "call_respects c4"
      by simp_all
    from ch n have b: "cameraBefore c1 = ?cam0" "cameraBefore c2 = cameraAfter c1"
      "cameraBefore c3 = cameraAfter c2" "cameraBefore c4 = cameraAfter c3"
      by simp_all
    have a1: "getDistortionParams (cameraAfter c1) ! 1 = pi / 2"
      "getDistortionParams (cameraAfter c1) ! 4 = 0"
      using call_respects_nth[OF r(1) k1, of 1] call_respects_nth[OF r(1) k1, of 4] b(1)
      by (simp_all add: setDistortionParams_def)
    have a2: "getDistortionParams (cameraAfter c2) ! 1 = pi / 2"
      "getDistortionParams (cameraAfter c2) ! 4 = 0"
      using call_respects_nth[OF r(2) k2, of 1] call_respects_nth[OF r(2) k2, of 4] b(2) a1
      by simp_all
    have a3: "getDistortionParams (cameraAfter c3) ! 1 = pi / 2"
      "getDistortionParams (cameraAfter c3) ! 4 = 0"
      using call_respects_nth[OF r(3) k3, of 1] call_respects_nth[OF r(3) k3, of 4] b(3) a2
      by simp_all
    have a4: "getDistortionParams (cameraAfter c4) ! 1 = getDistortionParams (cameraBefore c4) ! 1"
      "getDistortionParams (cameraAfter c4) ! 4 = getDistortionParams (cameraBefore c4) ! 4"
      using call_respects_nth[OF r(4) k4, of 1] call_respects_nth[OF r(4) k4, of 4]
      by simp_all
    from a3 a4 b(4) k4' n show ?thesis by simp
  qed
  have five: "call_locks (new ! 4) = (True, False, [False, False, False, False, False], True)"
    if l5: "5 \<le> length new"
  proof -
    from l5 obtain c1 c2 c3 c4 c5 rest where n: "new = c1 # c2 # c3 # c4 # c5 # rest"
      by (auto simp: length_Suc_conv numeral_eq_Suc Suc_le_length_iff)
    with locks show ?thesis by (auto simp: LD_stages_def)
  qed
  from ne first full four five show ?thesis
    unfolding nc by blast
qed

lemma bumping_respects: "respects_locks (bumping_estimator :: 'i estimator)"
proof -
  have "xs[0 := v] ! i = xs ! i" if "locks ! i" "\<not> locks ! 0"
    for xs :: "real list" and v i and locks :: "bool list"
  proof -
    from that have "0 \<noteq> i" by (cases "i = 0") auto
    then show ?thesis by (rule nth_list_update_neq)
  qed
  then show ?thesis
    unfolding respects_locks_def bumping_estimator_def by auto
qed

lemma ld_run:
  "estimateDistortion3DELD bumping_estimator ld_start =
     Some (run_stages bumping_estimator LD_stages
       (setDistortionParams [0, pi / 2, 0, 0, 0] ld_camera,
        \<lparr>mean = 0, stddev = 0, median = 0\<rparr>, [], \<lparr>logs = [], estimateCalls = []\<rparr>))"
  by (simp add: ld_start_def LD_as_stages initParams3DELD_five ld_camera_def)

text \<open>The solver that bumps the first parameter meets the hypotheses; its run makes five calls.\<close>

theorem classic_LD_schedule_witness:
  "length (getDistortionParams ld_camera) = 5 \<and>
   estimateDistortion3DELD bumping_estimator ld_start \<noteq> None \<and>
   fst (the (estimateDistortion3DELD bumping_estimator ld_start)) \<and>
   length (new_calls \<lparr>logs = [], estimateCalls = []\<rparr>
       (world_of (snd (the (estimateDistortion3DELD bumping_estimator ld_start))))) = 5 \<and>
   getDistortionParams (cameraAfter (new_calls \<lparr>logs = [], estimateCalls = []\<rparr>
       (world_of (snd (the (estimateDistortion3DELD bumping_estimator ld_start)))) ! 3)) ! 1 = pi / 2 \<and>
   getDistortionParams (cameraAfter (new_calls \<lparr>logs = [], estimateCalls = []\<rparr>
       (world_of (snd (the (estimateDistortion3DELD bumping_estimator ld_start)))) ! 3)) ! 4 = 0 \<and>
   call_locks (new_calls \<lparr>logs = [], estimateCalls = []\<rparr>
       (world_of (snd (the (estimateDistortion3DELD bumping_estimator ld_start)))) ! 4) =
     (True, False, [False, False, False, False, False], True)"
proof -
  define R where "R = run_stages bumping_estimator LD_stages
       (setDistortionParams [0, pi / 2, 0, 0, 0] ld_camera,
        \<lparr>mean = 0, stddev = 0, median = 0\<rparr>, [] :: LineWithPoints list,
        \<lparr>logs = [], estimateCalls = []\<rparr>)"
  have len: "length (getDistortionParams ld_camera) = 5" by (simp add: ld_camera_def)
  have run: "estimateDistortion3DELD bumping_estimator
      (ld_camera, \<lparr>mean = 0, stddev = 0, median = 0\<rparr>, [] :: LineWithPoints list,
       \<lparr>logs = [], estimateCalls = []\<rparr>) = Some (fst R, snd R)"
    using ld_run by (simp add: R_def ld_start_def)
  have ok: "fst R"
    by (simp add: R_def LD_stages_def estimate_def bumping_estimator_def Let_def)
  let ?N = "new_calls \<lparr>logs = [], estimateCalls = []\<rparr> (world_of (snd R))"
  note th = classic_LD_schedule[OF len bumping_respects run]
  from th ok have l5: "length ?N = 5" by blast
  then have "4 \<le> length ?N" and "5 \<le> length ?N" by simp_all
  with th have
    "getDistortionParams (cameraAfter (?N ! 3)) ! 1 = pi / 2"
    "getDistortionParams (cameraAfter (?N ! 3)) ! 4 = 0"
    "call_locks (?N ! 4) = (True, False, [False, False, False, False, False], True)"
    by blast+
  with l5 ok len run show ?thesis
    unfolding ld_start_def by (simp del: One_nat_def)
qed

section \<open>Properties of aliceVision_main\<close>

lemma sqrt_25: "sqrt 25 = 5"
proof -
  have "sqrt 25 = sqrt (5\<^sup>2)" by simp
  also have "\<dots> = 5" by (simp only: real_sqrt_abs abs_numeral)
  finally show ?thesis .
qed

lemma failing_run:
  "aliceVision_main failing_library (Some k1_scene) Map.empty True =
     Some \<lparr>exitCode = 0,
           written = Some \<lparr>getViews = [], getIntrinsics = [(0, IsPinhole (k1_camera\<lparr>getScale := (5, 5)\<rparr>))]\<rparr>,
           world = \<lparr>logs = [LOG_INFO_Id ''Processing Intrinsic '' 0, LOG_ERROR ''Failed to calibrate'',
                            LOG_ERROR ''Error estimating distortion''],
                    estimateCalls = [\<lparr>lockScale = True, lockOffset = True, locksDistortions = [True],
                       lockLines = False, cameraBefore = k1_camera\<lparr>getScale := (5, 5)\<rparr>,
                       cameraAfter = k1_camera\<lparr>getScale := (5, 5)\<rparr>, succeeded = False\<rparr>]\<rparr>\<rparr>"
  by (simp add: aliceVision_main_def k1_scene_def calibrate_intrinsic_def failing_library_def
      failing_estimator_def k1_camera_def dispatch_def after_schedule_def estimateDistortionK1_def
      estimate_def log_error_def log_entry_def setScale_def EXIT_SUCCESS_def sqrt_25 Let_def)


lemma estimate_world:
  "estimate est s a b l c = (ok, s') \<Longrightarrow>
     logs (world_of s') = logs (world_of s) \<and>
     length (estimateCalls (world_of s')) = Suc (length (estimateCalls (world_of s)))"
  by (cases s) (auto simp: estimate_def world_of_def Let_def split: prod.splits)

lemma K1_grows:
  "estimateDistortionK1 est s = (ok, s') \<Longrightarrow> grows (world_of s) (world_of s')"
  unfolding estimateDistortionK1_def Let_def grows_def
  by (auto split: prod.splits if_splits dest!: estimate_world)

lemma K3_grows:
  "estimateDistortionK3 est s = (ok, s') \<Longrightarrow> grows (world_of s) (world_of s')"
  unfolding estimateDistortionK3_def Let_def grows_def
  by (auto split: prod.splits if_splits dest!: estimate_world)

lemma R4_grows:
  "estimateDistortion3DER4 est s = (ok, s') \<Longrightarrow> grows (world_of s) (world_of s')"
  unfolding estimateDistortion3DER4_def Let_def grows_def
  by (auto split: prod.splits if_splits dest!: estimate_world)

lemma A4_grows:
  "estimateDistortion3DEA4 est s = Some (ok, s') \<Longrightarrow> grows (world_of s) (world_of s')"
  unfolding estimateDistortion3DEA4_def Let_def grows_def
  by (cases s) (auto split: prod.splits if_splits option.splits dest!: estimate_world)

lemma LD_grows:
  "estimateDistortion3DELD est s = Some (ok, s') \<Longrightarrow> grows (world_of s) (world_of s')"
  unfolding estimateDistortion3DELD_def Let_def grows_def
  by (cases s) (auto split: prod.splits if_splits option.splits dest!: estimate_world)

lemma grows_after_schedule:
  assumes "grows (world_of s) (world_of s1)" and "after_schedule msg (ok, s1) = (go, s')"
  shows "length (estimateCalls (world_of s)) < length (estimateCalls (world_of s')) \<and>
     set (logs (world_of s')) \<subseteq> set (logs (world_of s)) \<union>
       {LOG_ERROR ''Failed to calibrate'', LOG_ERROR msg,
        LOG_ERROR ''Incompatible camera distortion model''}"
  using assms by (auto simp: after_schedule_def grows_def split: if_splits)

lemma dispatch_world:
  assumes "dispatch est msg s = Some (go, s')"
  shows "length (estimateCalls (world_of s)) \<le> length (estimateCalls (world_of s')) \<and>
     (dynamicClass (fst s) \<noteq> PinholeOther \<longrightarrow>
        length (estimateCalls (world_of s)) < length (estimateCalls (world_of s'))) \<and>
     set (logs (world_of s')) \<subseteq> set (logs (world_of s)) \<union>
       {LOG_ERROR ''Failed to calibrate'', LOG_ERROR msg,
        LOG_ERROR ''Incompatible camera distortion model''}"
proof (cases "dynamicClass (fst s)")
  case PinholeRadialK1
  obtain ok s1 where r: "estimateDistortionK1 est s = (ok, s1)"
    by (cases "estimateDistortionK1 est s") auto
  with assms PinholeRadialK1 have "after_schedule msg (ok, s1) = (go, s')"
    by (simp add: dispatch_def)
  from grows_after_schedule[OF K1_grows[OF r] this] show ?thesis by simp
next
  case PinholeRadialK3
  obtain ok s1 where r: "estimateDistortionK3 est s = (ok, s1)"
    by (cases "estimateDistortionK3 est s") auto
  with assms PinholeRadialK3 have "after_schedule msg (ok, s1) = (go, s')"
    by (simp add: dispatch_def)
  from grows_after_schedule[OF K3_grows[OF r] this] show ?thesis by simp
next
  case Pinhole3DERadial4
  obtain ok s1 where r: "estimateDistortion3DER4 est s = (ok, s1)"
    by (cases "estimateDistortion3DER4 est s") auto
  with assms Pinhole3DERadial4 have "after_schedule msg (ok, s1) = (go, s')"
    by (simp add: dispatch_def)
  from grows_after_schedule[OF R4_grows[OF r] this] show ?thesis by simp
next
  case Pinhole3DEAnamorphic4
  with assms obtain ok s1 where r: "estimateDistortion3DEA4 est s = Some (ok, s1)"
    and a: "after_schedule msg (ok, s1) = (go, s')"
    by (auto simp: dispatch_def)
  from grows_after_schedule[OF A4_grows[OF r] a] show ?thesis by simp
next
  case Pinhole3DEClassicLD
  with assms obtain ok s1 where r: "estimateDistortion3DELD est s = Some (ok, s1)"
    and a: "after_schedule msg (ok, s1) = (go, s')"
    by (auto simp: dispatch_def)
  from grows_after_schedule[OF LD_grows[OF r] a] show ?thesis by simp
next
  case PinholeOther
  with assms show ?thesis by (auto simp: dispatch_def)
qed

lemma log_statistics_simps [simp]:
  "estimateCalls (log_statistics title st wd) = estimateCalls wd"
  "logs (log_statistics title st wd) =
     logs wd @ [LOG_INFO title, LOG_INFO_Mean (mean st) (stddev st), LOG_INFO_Median (median st)]"
  by (simp_all add: log_statistics_def)

lemma calibrate_intrinsic_pinhole:
  assumes "calibrate_intrinsic lib views bs wd (iid, IsPinhole c) = Some it"
  shows "\<exists>c' wd'. it = Next (IsPinhole c') wd' \<and>
     length (estimateCalls wd) \<le> length (estimateCalls wd') \<and>
     (dynamicClass c \<noteq> PinholeOther \<longrightarrow> length (estimateCalls wd) < length (estimateCalls wd')) \<and>
     (LOG_ERROR ''Error generating points'' \<in> set (logs wd') \<longrightarrow>
      LOG_ERROR ''Error generating points'' \<in> set (logs wd))"
proof -
  from assms obtain allLines where v: "views_loop bs iid views [] = Some allLines"
    by (auto simp: calibrate_intrinsic_def split: option.splits)
  define cam1 where "cam1 = setScale (sqrt (real (w c) * 0.5 * (real (w c) * 0.5) +
      real (h c) * 0.5 * (real (h c) * 0.5)), sqrt (real (w c) * 0.5 * (real (w c) * 0.5) +
      real (h c) * 0.5 * (real (h c) * 0.5))) c"
  define wd1 where "wd1 = log_entry (LOG_INFO_Id ''Processing Intrinsic '' iid) wd"
  from assms v obtain go cam2 st2 lines2 wd2 where
    d1: "dispatch (estimateLines lib) ''Error estimating distortion''
           (cam1, defaultStatistics lib, allLines, wd1) = Some (go, cam2, st2, lines2, wd2)"
    by (auto simp: calibrate_intrinsic_def Let_def cam1_def wd1_def split: option.splits)
  have cls: "dynamicClass cam1 = dynamicClass c" by (simp add: cam1_def setScale_def)
  from dispatch_world[OF d1] cls
  have w2: "length (estimateCalls wd) \<le> length (estimateCalls wd2)"
       "dynamicClass c \<noteq> PinholeOther \<longrightarrow> length (estimateCalls wd) < length (estimateCalls wd2)"
       "LOG_ERROR ''Error generating points'' \<in> set (logs wd2) \<longrightarrow>
        LOG_ERROR ''Error generating points'' \<in> set (logs wd)"
    by (auto simp: wd1_def)
  show ?thesis
  proof (cases go)
    case False
    with assms v d1 have "it = Next (IsPinhole cam2) wd2"
      by (simp add: calibrate_intrinsic_def Let_def cam1_def wd1_def)
    with w2 show ?thesis by blast
  next
    case True
    define wd3 where "wd3 = log_statistics ''Result quality of calibration: '' st2 wd2"
    define cam3 where "cam3 = setScale (getScale c) cam2"
    define pairs where "pairs = snd (generatePoints lib [] cam3 lines2)"
    have gp: "generatePoints lib [] cam3 lines2 = (True, pairs)"
      by (simp add: pairs_def generatePoints_def)
    from assms v d1 True gp obtain go' cam4 st4 pairs4 wd4 where
      d2: "dispatch (estimatePoints lib) ''Error estimating reverse distortion''
             (cam3, st2, pairs, wd3) = Some (go', cam4, st4, pairs4, wd4)"
      by (auto simp: calibrate_intrinsic_def Let_def cam1_def wd1_def wd3_def cam3_def
          split: option.splits)
    from dispatch_world[OF d2]
    have w4: "length (estimateCalls wd2) \<le> length (estimateCalls wd4)"
       "LOG_ERROR ''Error generating points'' \<in> set (logs wd4) \<longrightarrow>
        LOG_ERROR ''Error generating points'' \<in> set (logs wd2)"
      by (auto simp: wd3_def)
    from assms v d1 True gp d2
    have "it = Next (IsPinhole cam4) wd4 \<or>
          it = Next (IsPinhole cam4) (log_statistics ''Result quality of inversion: '' st4 wd4)"
      by (auto simp: calibrate_intrinsic_def Let_def cam1_def wd1_def wd3_def cam3_def
          split: if_splits)
    with w2 w4 show ?thesis by auto
  qed
qed


lemma calibrate_intrinsic_not_pinhole:
  "calibrate_intrinsic lib views bs wd (iid, NotPinhole) =
     Some (Return EXIT_FAILURE (log_entry (LOG_ERROR ''Only work for pinhole cameras'') wd))"
  by (simp add: calibrate_intrinsic_def)

lemma intrinsics_loop_cut:
  "intrinsics_loop lib views bs (pre @ (iid, NotPinhole) # rest) processed wd =
   intrinsics_loop lib views bs (pre @ [(iid, NotPinhole)]) processed wd"
proof (induction pre arbitrary: processed wd)
  case Nil
  show ?case by (simp add: calibrate_intrinsic_not_pinhole)
next
  case (Cons x pre)
  show ?case
    by (cases "calibrate_intrinsic lib views bs wd x")
       (simp_all add: Cons.IH split: Iteration.splits)
qed

lemma intrinsics_loop_result:
  assumes "intrinsics_loop lib views bs xs processed wd = Some r"
  shows "case r of
      Inl (code, wd') \<Rightarrow> code = EXIT_FAILURE \<and> (\<exists>x \<in> set xs. snd x = NotPinhole) \<and>
         logs wd' \<noteq> [] \<and> last (logs wd') = LOG_ERROR ''Only work for pinhole cameras''
    | Inr (intrinsics, wd') \<Rightarrow> (\<forall>x \<in> set xs. snd x \<noteq> NotPinhole)"
  using assms
proof (induction xs arbitrary: processed wd)
  case Nil
  then show ?case by auto
next
  case (Cons x xs)
  obtain iid intr where x: "x = (iid, intr)" by (cases x)
  show ?case
  proof (cases intr)
    case NotPinhole
    with Cons.prems x show ?thesis
      by (auto simp: calibrate_intrinsic_not_pinhole)
  next
    case (IsPinhole c)
    from Cons.prems x IsPinhole obtain it where
      it: "calibrate_intrinsic lib views bs wd (iid, IsPinhole c) = Some it"
      by (auto split: option.splits)
    from calibrate_intrinsic_pinhole[OF it] obtain c' wd' where
      n: "it = Next (IsPinhole c') wd'" by blast
    with Cons.prems x IsPinhole it have
      "intrinsics_loop lib views bs xs (processed @ [(iid, IsPinhole c')]) wd' = Some r"
      by simp
    from Cons.IH[OF this] x IsPinhole show ?thesis
      by (auto split: sum.splits prod.splits)
  qed
qed

lemma intrinsics_loop_logs:
  assumes "intrinsics_loop lib views bs xs processed wd = Some r"
    and "LOG_ERROR ''Error generating points'' \<notin> set (logs wd)"
  shows "LOG_ERROR ''Error generating points'' \<notin>
           set (logs (case r of Inl (code, wd') \<Rightarrow> wd' | Inr (intrinsics, wd') \<Rightarrow> wd'))"
  using assms
proof (induction xs arbitrary: processed wd)
  case Nil
  then show ?case by auto
next
  case (Cons x xs)
  obtain iid intr where x: "x = (iid, intr)" by (cases x)
  show ?case
  proof (cases intr)
    case NotPinhole
    with Cons.prems x show ?thesis
      by (auto simp: calibrate_intrinsic_not_pinhole)
  next
    case (IsPinhole c)
    from Cons.prems x IsPinhole obtain it where
      it: "calibrate_intrinsic lib views bs wd (iid, IsPinhole c) = Some it"
      by (auto split: option.splits)
    from calibrate_intrinsic_pinhole[OF it] Cons.prems(2) obtain c' wd' where
      n: "it = Next (IsPinhole c') wd'" and
      l: "LOG_ERROR ''Error generating points'' \<notin> set (logs wd')" by blast
    with Cons.prems x IsPinhole it have
      "intrinsics_loop lib views bs xs (processed @ [(iid, IsPinhole c')]) wd' = Some r"
      by simp
    from Cons.IH[OF this l] show ?thesis .
  qed
qed

lemma counts_log_entry [simp]:
  "logged_failures (log_entry e wd) =
     logged_failures wd + (if e = LOG_ERROR ''Failed to calibrate'' then 1 else 0)"
  "failed_calls (log_entry e wd) = failed_calls wd"
  by (simp_all add: logged_failures_def failed_calls_def)

lemma estimate_counts:
  "estimate est s a b l c = (ok, s') \<Longrightarrow>
     logged_failures (world_of s') = logged_failures (world_of s) \<and>
     failed_calls (world_of s') = failed_calls (world_of s) + (if ok then 0 else 1)"
  by (cases s) (auto simp: estimate_def world_of_def Let_def logged_failures_def failed_calls_def
      split: prod.splits)

lemma K1_failures:
  "estimateDistortionK1 est s = (ok, s') \<Longrightarrow> failures_logged (world_of s) \<Longrightarrow>
     failures_logged (world_of s')"
  unfolding estimateDistortionK1_def Let_def failures_logged_def
  by (auto split: prod.splits if_splits dest!: estimate_counts)

lemma K3_failures:
  "estimateDistortionK3 est s = (ok, s') \<Longrightarrow> failures_logged (world_of s) \<Longrightarrow>
     failures_logged (world_of s')"
  unfolding estimateDistortionK3_def Let_def failures_logged_def
  by (auto split: prod.splits if_splits dest!: estimate_counts)

lemma R4_failures:
  "estimateDistortion3DER4 est s = (ok, s') \<Longrightarrow> failures_logged (world_of s) \<Longrightarrow>
     failures_logged (world_of s')"
  unfolding estimateDistortion3DER4_def Let_def failures_logged_def
  by (auto split: prod.splits if_splits dest!: estimate_counts)

lemma A4_failures:
  "estimateDistortion3DEA4 est s = Some (ok, s') \<Longrightarrow> failures_logged (world_of s) \<Longrightarrow>
     failures_logged (world_of s')"
  unfolding estimateDistortion3DEA4_def Let_def failures_logged_def
  by (cases s) (auto split: prod.splits if_splits option.splits dest!: estimate_counts)

lemma LD_failures:
  "estimateDistortion3DELD est s = Some (ok, s') \<Longrightarrow> failures_logged (world_of s) \<Longrightarrow>
     failures_logged (world_of s')"
  unfolding estimateDistortion3DELD_def Let_def failures_logged_def
  by (cases s) (auto split: prod.splits if_splits option.splits dest!: estimate_counts)

lemma after_schedule_failures:
  "after_schedule msg (ok, s1) = (go, s') \<Longrightarrow> msg \<noteq> ''Failed to calibrate'' \<Longrightarrow>
     failures_logged (world_of s1) \<Longrightarrow> failures_logged (world_of s')"
  by (auto simp: after_schedule_def failures_logged_def split: if_splits)

lemma dispatch_failures:
  assumes d: "dispatch est msg s = Some (go, s')"
    and msg: "msg \<noteq> ''Failed to calibrate''"
    and inv: "failures_logged (world_of s)"
  shows "failures_logged (world_of s')"
proof (cases "dynamicClass (fst s)")
  case PinholeRadialK1
  obtain ok s1 where r: "estimateDistortionK1 est s = (ok, s1)"
    by (cases "estimateDistortionK1 est s") auto
  with d PinholeRadialK1 have "after_schedule msg (ok, s1) = (go, s')"
    by (simp add: dispatch_def)
  from after_schedule_failures[OF this msg K1_failures[OF r inv]] show ?thesis .
next
  case PinholeRadialK3
  obtain ok s1 where r: "estimateDistortionK3 est s = (ok, s1)"
    by (cases "estimateDistortionK3 est s") auto
  with d PinholeRadialK3 have "after_schedule msg (ok, s1) = (go, s')"
    by (simp add: dispatch_def)
  from after_schedule_failures[OF this msg K3_failures[OF r inv]] show ?thesis .
next
  case Pinhole3DERadial4
  obtain ok s1 where r: "estimateDistortion3DER4 est s = (ok, s1)"
    by (cases "estimateDistortion3DER4 est s") auto
  with d Pinhole3DERadial4 have "after_schedule msg (ok, s1) = (go, s')"
    by (simp add: dispatch_def)
  from after_schedule_failures[OF this msg R4_failures[OF r inv]] show ?thesis .
next
  case Pinhole3DEAnamorphic4
  with d obtain ok s1 where r: "estimateDistortion3DEA4 est s = Some (ok, s1)"
    and a: "after_schedule msg (ok, s1) = (go, s')"
    by (auto simp: dispatch_def)
  from after_schedule_failures[OF a msg A4_failures[OF r inv]] show ?thesis .
next
  case Pinhole3DEClassicLD
  with d obtain ok s1 where r: "estimateDistortion3DELD est s = Some (ok, s1)"
    and a: "after_schedule msg (ok, s1) = (go, s')"
    by (auto simp: dispatch_def)
  from after_schedule_failures[OF a msg LD_failures[OF r inv]] show ?thesis .
next
  case PinholeOther
  with d inv show ?thesis by (auto simp: dispatch_def failures_logged_def)
qed

lemma counts_log_statistics [simp]:
  "logged_failures (log_statistics title st wd) = logged_failures wd"
  "failed_calls (log_statistics title st wd) = failed_calls wd"
  by (simp_all add: log_statistics_def)

lemma calibrate_intrinsic_failures:
  assumes run: "calibrate_intrinsic lib views bs wd (iid, IsPinhole c) = Some it"
    and inv: "failures_logged wd"
  shows "failures_logged (iteration_world it)"
proof -
  from run obtain allLines where v: "views_loop bs iid views [] = Some allLines"
    by (auto simp: calibrate_intrinsic_def split: option.splits)
  define cam1 where "cam1 = setScale (sqrt (real (w c) * 0.5 * (real (w c) * 0.5) +
      real (h c) * 0.5 * (real (h c) * 0.5)), sqrt (real (w c) * 0.5 * (real (w c) * 0.5) +
      real (h c) * 0.5 * (real (h c) * 0.5))) c"
  define wd1 where "wd1 = log_entry (LOG_INFO_Id ''Processing Intrinsic '' iid) wd"
  from run v obtain go cam2 st2 lines2 wd2 where
    d1: "dispatch (estimateLines lib) ''Error estimating distortion''
           (cam1, defaultStatistics lib, allLines, wd1) = Some (go, cam2, st2, lines2, wd2)"
    by (auto simp: calibrate_intrinsic_def Let_def cam1_def wd1_def split: option.splits)
  from inv have "failures_logged (world_of (cam1, defaultStatistics lib, allLines, wd1))"
    by (simp add: wd1_def failures_logged_def)
  from dispatch_failures[OF d1 _ this] have w2: "failures_logged wd2" by simp
  show ?thesis
  proof (cases go)
    case False
    with run v d1 have "it = Next (IsPinhole cam2) wd2"
      by (simp add: calibrate_intrinsic_def Let_def cam1_def wd1_def)
    with w2 show ?thesis by (simp add: iteration_world_def)
  next
    case True
    define wd3 where "wd3 = log_statistics ''Result quality of calibration: '' st2 wd2"
    define cam3 where "cam3 = setScale (getScale c) cam2"
    define pairs where "pairs = snd (generatePoints lib [] cam3 lines2)"
    have gp: "generatePoints lib [] cam3 lines2 = (True, pairs)"
      by (simp add: pairs_def generatePoints_def)
    from run v d1 True gp obtain go' cam4 st4 pairs4 wd4 where
      d2: "dispatch (estimatePoints lib) ''Error estimating reverse distortion''
             (cam3, st2, pairs, wd3) = Some (go', cam4, st4, pairs4, wd4)"
      by (auto simp: calibrate_intrinsic_def Let_def cam1_def wd1_def wd3_def cam3_def
          split: option.splits)
    from w2 have "failures_logged (world_of (cam3, st2, pairs, wd3))"
      by (simp add: wd3_def failures_logged_def)
    from dispatch_failures[OF d2 _ this] have w4: "failures_logged wd4" by simp
    from run v d1 True gp d2
    have "it = Next (IsPinhole cam4) wd4 \<or>
          it = Next (IsPinhole cam4) (log_statistics ''Result quality of inversion: '' st4 wd4)"
      by (auto simp: calibrate_intrinsic_def Let_def cam1_def wd1_def wd3_def cam3_def
          split: if_splits)
    with w4 show ?thesis by (auto simp: iteration_world_def failures_logged_def)
  qed
qed

lemma intrinsics_loop_failures:
  assumes "intrinsics_loop lib views bs xs processed wd = Some (Inr (intrinsics, wd'))"
    and "failures_logged wd"
  shows "failures_logged wd'"
  using assms
proof (induction xs arbitrary: processed wd)
  case Nil
  then show ?case by simp
next
  case (Cons x xs)
  obtain iid intr where x: "x = (iid, intr)" by (cases x)
  show ?case
  proof (cases intr)
    case NotPinhole
    with Cons.prems x show ?thesis
      by (simp add: calibrate_intrinsic_not_pinhole)
  next
    case (IsPinhole c)
    from Cons.prems x IsPinhole obtain it where
      it: "calibrate_intrinsic lib views bs wd (iid, IsPinhole c) = Some it"
      by (auto split: option.splits)
    from calibrate_intrinsic_pinhole[OF it] obtain c' wd1 where
      n: "it = Next (IsPinhole c') wd1" by blast
    from calibrate_intrinsic_failures[OF it Cons.prems(2)] n have inv: "failures_logged wd1"
      by (simp add: iteration_world_def)
    from Cons.prems x IsPinhole it n have
      "intrinsics_loop lib views bs xs (processed @ [(iid, IsPinhole c')]) wd1 =
         Some (Inr (intrinsics, wd'))"
      by simp
    from Cons.IH[OF this inv] show ?thesis .
  qed
qed

lemma mixed_run:
  "aliceVision_main failing_library (Some mixed_scene) Map.empty True =
     Some \<lparr>exitCode = 1, written = None,
           world = \<lparr>logs = [LOG_ERROR ''Only work for pinhole cameras''], estimateCalls = []\<rparr>\<rparr>"
  by (simp add: aliceVision_main_def mixed_scene_def calibrate_intrinsic_def EXIT_FAILURE_def
      log_entry_def Let_def)

lemma passing_run:
  "map_option (\<lambda>out. (exitCode out, map_option (map (map_prod id (\<lambda>i. case i of IsPinhole c \<Rightarrow> Some (getScale c) | NotPinhole \<Rightarrow> None)) \<circ> getIntrinsics) (written out),
       length (estimateCalls (world out))))
     (aliceVision_main passing_library (Some k1_scene) Map.empty True) =
   Some (0, Some [(0, Some (1, 1))], 6)"
  by (simp add: aliceVision_main_def k1_scene_def calibrate_intrinsic_def passing_library_def
      passing_estimator_def k1_camera_def dispatch_def after_schedule_def estimateDistortionK1_def
      estimate_def log_error_def log_entry_def log_statistics_def setScale_def EXIT_SUCCESS_def
      generatePoints_def sqrt_25 Let_def)

lemma one_view_lines:
  "views_loop (load_boards one_view_files (getViews one_view_scene) Map.empty) 0
     (getViews one_view_scene) [] = Some []"
  by (simp add: one_view_files_def one_view_scene_def board_of_def row_detector_lines)

text \<open>
  C1: a RadialK1 camera of 6 by 8 pixels with scale \<open>(1, 1)\<close> and a solver whose first stage
  fails. The iteration leaves by \<open>continue\<close> before the scale is set back: the scene
  written holds the camera with scale \<open>(5, 5)\<close>, the half diagonal, instead of \<open>(1, 1)\<close>.
\<close>

theorem scale_not_restored_when_schedule_fails:
  "getScale k1_camera = (1, 1) \<and>
   map_option written (aliceVision_main failing_library (Some k1_scene) Map.empty True) =
     Some (Some \<lparr>getViews = [],
                 getIntrinsics = [(0, IsPinhole (k1_camera\<lparr>getScale := (5, 5)\<rparr>))]\<rparr>)"
  by (simp add: failing_run) (simp add: k1_camera_def)

text \<open>
  C2, as stated, fails: the only view of the camera yields one line, fewer than two in
  total, and the first solver stage is still invoked.
\<close>

theorem one_line_still_calibrated:
  "map_option (length \<circ> snd) (retrieveLines row_detector) = Some 1 \<and>
   getViews one_view_scene = [(7, \<lparr>getIntrinsicId = 0\<rparr>)] \<and>
   one_view_files 7 = Some row_detector \<and>
   map_option (length \<circ> estimateCalls \<circ> world)
     (aliceVision_main failing_library (Some one_view_scene) one_view_files True) = Some 1"
  by (simp add: row_detector_lines aliceVision_main_def calibrate_intrinsic_def one_view_lines[simplified]
      one_view_scene_def one_view_files_def board_of_def
      failing_library_def failing_estimator_def k1_camera_def dispatch_def after_schedule_def
      estimateDistortionK1_def estimate_def log_error_def log_entry_def setScale_def Let_def)

text \<open>
  C2, amended: \<open>retrieveLines\<close> returns whether the detector of one view yields at least
  two lines; a view of the camera that yields fewer contributes no line; and the camera
  itself is not skipped for want of lines: for a camera of one of the five supported
  classes the iteration always invokes the solver.
\<close>

theorem few_lines_view_is_skipped:
  "(retrieveLines detect = Some (ok, ls) \<longrightarrow> ok = (2 \<le> length ls)) \<and>
   (getIntrinsicId (snd pv) = iid \<and> retrieveLines (board_of bs (fst pv)) = Some (ok', ls') \<and>
      length ls' < 2 \<longrightarrow>
      views_loop bs iid (pv # pvs) acc = views_loop bs iid pvs acc) \<and>
   (dynamicClass c \<noteq> PinholeOther \<and>
      calibrate_intrinsic lib views bs wd (iid, IsPinhole c) = Some it \<longrightarrow>
      length (estimateCalls wd) < length (estimateCalls (iteration_world it)))"
proof (intro conjI impI)
  assume "retrieveLines detect = Some (ok, ls)"
  then show "ok = (2 \<le> length ls)"
    by (auto simp: retrieveLines_def split: option.splits if_splits)
next
  assume a: "getIntrinsicId (snd pv) = iid \<and> retrieveLines (board_of bs (fst pv)) = Some (ok', ls') \<and>
      length ls' < 2"
  then have "\<not> ok'" by (auto simp: retrieveLines_def split: option.splits if_splits)
  with a show "views_loop bs iid (pv # pvs) acc = views_loop bs iid pvs acc" by simp
next
  assume a: "dynamicClass c \<noteq> PinholeOther \<and>
      calibrate_intrinsic lib views bs wd (iid, IsPinhole c) = Some it"
  with calibrate_intrinsic_pinhole[of lib views bs wd iid c it]
  show "length (estimateCalls wd) < length (estimateCalls (iteration_world it))"
    by (auto simp: iteration_world_def)
qed

text \<open>The view with the one-row board is dropped, and the camera is calibrated all the same.\<close>

theorem few_lines_view_is_skipped_witness:
  "retrieveLines row_detector = Some (False, [row_line]) \<and>
   views_loop one_view_files 0 [(7, \<lparr>getIntrinsicId = 0\<rparr>)] [] = views_loop one_view_files 0 [] [] \<and>
   calibrate_intrinsic failing_library [(7, \<lparr>getIntrinsicId = 0\<rparr>)] one_view_files
     \<lparr>logs = [], estimateCalls = []\<rparr> (0, IsPinhole k1_camera) \<noteq> None \<and>
   0 < length (estimateCalls (iteration_world (the
         (calibrate_intrinsic failing_library [(7, \<lparr>getIntrinsicId = 0\<rparr>)] one_view_files
            \<lparr>logs = [], estimateCalls = []\<rparr> (0, IsPinhole k1_camera)))))"
proof -
  have b: "retrieveLines (board_of one_view_files (fst (7 :: IndexT, \<lparr>getIntrinsicId = 0\<rparr>))) =
      Some (False, [row_line])"
    by (simp add: board_of_def one_view_files_def row_detector_lines)
  have "calibrate_intrinsic failing_library [(7, \<lparr>getIntrinsicId = 0\<rparr>)] one_view_files
     \<lparr>logs = [], estimateCalls = []\<rparr> (0, IsPinhole k1_camera) \<noteq> None"
    using b
    by (simp add: calibrate_intrinsic_def failing_library_def failing_estimator_def k1_camera_def
        dispatch_def after_schedule_def estimateDistortionK1_def estimate_def log_error_def
        log_entry_def setScale_def Let_def)
  then obtain it where it: "calibrate_intrinsic failing_library [(7, \<lparr>getIntrinsicId = 0\<rparr>)]
      one_view_files \<lparr>logs = [], estimateCalls = []\<rparr> (0, IsPinhole k1_camera) = Some it" by auto
  from few_lines_view_is_skipped[where detect = row_detector and ok = False and ls = "[row_line]"
      and pv = "(7, \<lparr>getIntrinsicId = 0\<rparr>)" and iid = 0 and bs = one_view_files
      and ok' = False and ls' = "[row_line]" and pvs = "[]" and acc = "[]"
      and c = k1_camera and lib = failing_library and views = "[(7, \<lparr>getIntrinsicId = 0\<rparr>)]"
      and wd = "\<lparr>logs = [], estimateCalls = []\<rparr>" and it = it]
    row_detector_lines b it
  show ?thesis by (simp add: k1_camera_def row_line_def)
qed

text \<open>
  C3, as stated, fails: with an intrinsic that is not a pinhole before a pinhole one, the
  run ends with exit code 1 and no solver call, while the pinhole camera alone gets one.
\<close>

theorem not_pinhole_stops_the_run:
  "aliceVision_main failing_library (Some mixed_scene) Map.empty True =
     Some \<lparr>exitCode = 1, written = None,
           world = \<lparr>logs = [LOG_ERROR ''Only work for pinhole cameras''], estimateCalls = []\<rparr>\<rparr> \<and>
   map_option (length \<circ> estimateCalls \<circ> world)
     (aliceVision_main failing_library (Some k1_scene) Map.empty True) = Some 1"
  by (simp add: mixed_run failing_run)

text \<open>
  C3, amended: at an intrinsic that is not a pinhole the program logs
  \<open>Only work for pinhole cameras\<close> and returns \<open>EXIT_FAILURE\<close> at once; the intrinsics after
  it play no part in the result and nothing is written.
\<close>

theorem not_pinhole_aborts:
  "aliceVision_main lib (Some \<lparr>getViews = views, getIntrinsics = pre @ (iid, NotPinhole) # rest\<rparr>)
       files canSave =
   aliceVision_main lib (Some \<lparr>getViews = views, getIntrinsics = pre @ [(iid, NotPinhole)]\<rparr>)
       files canSave \<and>
   (\<forall>out. aliceVision_main lib
        (Some \<lparr>getViews = views, getIntrinsics = pre @ (iid, NotPinhole) # rest\<rparr>)
        files canSave = Some out \<longrightarrow>
      exitCode out = EXIT_FAILURE \<and> written out = None \<and> logs (world out) \<noteq> [] \<and>
      last (logs (world out)) = LOG_ERROR ''Only work for pinhole cameras'')"
proof (rule conjI)
  show "aliceVision_main lib (Some \<lparr>getViews = views, getIntrinsics = pre @ (iid, NotPinhole) # rest\<rparr>)
       files canSave =
   aliceVision_main lib (Some \<lparr>getViews = views, getIntrinsics = pre @ [(iid, NotPinhole)]\<rparr>)
       files canSave"
  proof (cases "intrinsics_loop lib views (load_boards files views Map.empty)
          (pre @ [(iid, NotPinhole)]) [] \<lparr>logs = [], estimateCalls = []\<rparr>")
    case None
    then show ?thesis
      by (simp add: aliceVision_main_def Let_def intrinsics_loop_cut[of _ _ _ pre iid rest])
  next
    case (Some r)
    from intrinsics_loop_result[OF Some] obtain code wd' where "r = Inl (code, wd')"
      by (cases r) auto
    with Some show ?thesis
      by (simp add: aliceVision_main_def Let_def intrinsics_loop_cut[of _ _ _ pre iid rest])
  qed
next
  show "\<forall>out. aliceVision_main lib
        (Some \<lparr>getViews = views, getIntrinsics = pre @ (iid, NotPinhole) # rest\<rparr>)
        files canSave = Some out \<longrightarrow>
      exitCode out = EXIT_FAILURE \<and> written out = None \<and> logs (world out) \<noteq> [] \<and>
      last (logs (world out)) = LOG_ERROR ''Only work for pinhole cameras''"
  proof (intro allI impI)
  fix out
  assume run: "aliceVision_main lib
        (Some \<lparr>getViews = views, getIntrinsics = pre @ (iid, NotPinhole) # rest\<rparr>)
        files canSave = Some out"
  then obtain r where
    r: "intrinsics_loop lib views (load_boards files views Map.empty)
          (pre @ (iid, NotPinhole) # rest) [] \<lparr>logs = [], estimateCalls = []\<rparr> = Some r"
    by (auto simp: aliceVision_main_def Let_def split: option.splits)
  from intrinsics_loop_result[OF r] obtain code wd' where
    "r = Inl (code, wd')" "code = EXIT_FAILURE" "logs wd' \<noteq> []"
    "last (logs wd') = LOG_ERROR ''Only work for pinhole cameras''"
    by (cases r) auto
  with run r show "exitCode out = EXIT_FAILURE \<and> written out = None \<and> logs (world out) \<noteq> [] \<and>
      last (logs (world out)) = LOG_ERROR ''Only work for pinhole cameras''"
    by (auto simp: aliceVision_main_def Let_def)
qed
qed

text \<open>The scene with a pinhole camera after the intrinsic that is not one.\<close>

theorem not_pinhole_aborts_witness:
  "aliceVision_main failing_library (Some mixed_scene) Map.empty True =
     aliceVision_main failing_library
       (Some \<lparr>getViews = [], getIntrinsics = [(0, NotPinhole)]\<rparr>) Map.empty True \<and>
   exitCode (the (aliceVision_main failing_library (Some mixed_scene) Map.empty True)) = EXIT_FAILURE \<and>
   written (the (aliceVision_main failing_library (Some mixed_scene) Map.empty True)) = None"
  using not_pinhole_aborts[of failing_library "[]" "[]" 0 "[(1, IsPinhole k1_camera)]" Map.empty True]
    mixed_run
  by (simp add: mixed_scene_def EXIT_FAILURE_def)

text \<open>
  C5, as stated, fails: the only camera's schedule aborts at its first solver call, the
  output can be written, and the exit code is 0.
\<close>

theorem exit_zero_when_every_schedule_fails:
  "map_option exitCode
     (aliceVision_main_argv Options failing_library (Some k1_scene) (\<lambda>viewId. NoFile) True) = Some 0 \<and>
   map_option (map succeeded \<circ> estimateCalls \<circ> world)
     (aliceVision_main_argv Options failing_library (Some k1_scene) (\<lambda>viewId. NoFile) True) =
     Some [False]"
  by (simp add: aliceVision_main_argv_def detector_of_def k1_scene_def)
     (simp add: failing_run[unfolded k1_scene_def])

text \<open>
  C5, amended: a calibration that fails does not make the exit status non-zero. When the
  options are parsed, the input scene is read, no intrinsic is other than a pinhole and
  the output can be written, the program, if it returns, returns \<open>EXIT_SUCCESS\<close> and has
  written the scene, whatever the solver does; and the log holds one
  \<open>Failed to calibrate\<close> for each solver call that failed.
\<close>

theorem failed_calibrations_exit_zero:
  assumes run: "aliceVision_main_argv Options lib (Some sfmData) disk True = Some out"
    and pin: "\<forall>x \<in> set (getIntrinsics sfmData). snd x \<noteq> NotPinhole"
  shows "exitCode out = EXIT_SUCCESS \<and> written out \<noteq> None \<and>
     count_list (logs (world out)) (LOG_ERROR ''Failed to calibrate'') =
       length (filter (\<lambda>c. \<not> succeeded c) (estimateCalls (world out)))"
proof -
  let ?files = "\<lambda>viewId. detector_of (disk viewId)"
  from run have m: "aliceVision_main lib (Some sfmData) ?files True = Some out"
    by (auto simp: aliceVision_main_argv_def split: if_splits)
  then obtain r where
    r: "intrinsics_loop lib (getViews sfmData) (load_boards ?files (getViews sfmData) Map.empty)
          (getIntrinsics sfmData) [] \<lparr>logs = [], estimateCalls = []\<rparr> = Some r"
    by (auto simp: aliceVision_main_def Let_def split: option.splits)
  from intrinsics_loop_result[OF r] pin obtain intrinsics wd' where
    inr: "r = Inr (intrinsics, wd')"
    by (cases r) auto
  have "failures_logged \<lparr>logs = [], estimateCalls = []\<rparr>"
    by (simp add: failures_logged_def logged_failures_def failed_calls_def)
  from intrinsics_loop_failures[OF r[unfolded inr] this] have "failures_logged wd'" .
  with m r inr show ?thesis
    by (auto simp: aliceVision_main_def Let_def failures_logged_def logged_failures_def
        failed_calls_def)
qed

text \<open>The run whose only schedule fails: exit code 0 and one failure logged.\<close>

theorem failed_calibrations_exit_zero_witness:
  "aliceVision_main_argv Options failing_library (Some k1_scene) (\<lambda>viewId. NoFile) True \<noteq> None \<and>
   snd (hd (getIntrinsics k1_scene)) \<noteq> NotPinhole \<and>
   exitCode (the (aliceVision_main_argv Options failing_library (Some k1_scene)
                    (\<lambda>viewId. NoFile) True)) = EXIT_SUCCESS \<and>
   count_list (logs (world (the (aliceVision_main_argv Options failing_library (Some k1_scene)
                    (\<lambda>viewId. NoFile) True)))) (LOG_ERROR ''Failed to calibrate'') = 1"
proof -
  have run: "aliceVision_main_argv Options failing_library (Some k1_scene) (\<lambda>viewId. NoFile) True =
      aliceVision_main failing_library (Some k1_scene) Map.empty True"
    by (simp add: aliceVision_main_argv_def detector_of_def k1_scene_def)
  then obtain out where out: "aliceVision_main_argv Options failing_library (Some k1_scene)
      (\<lambda>viewId. NoFile) True = Some out"
    by (simp add: failing_run)
  have pin: "\<forall>x \<in> set (getIntrinsics k1_scene). snd x \<noteq> NotPinhole"
    by (simp add: k1_scene_def)
  from failed_calibrations_exit_zero[OF out pin] out run failing_run
  show ?thesis by (simp add: k1_scene_def)
qed

text \<open>
  C10: \<open>generatePoints\<close> returns true whatever its arguments, and no run of the program
  logs \<open>Error generating points\<close>.
\<close>

theorem generatePoints_always_true:
  "fst (generatePoints lib pairs camera lineWithPoints) = True \<and>
   (\<forall>out. aliceVision_main lib loaded files canSave = Some out \<longrightarrow>
      LOG_ERROR ''Error generating points'' \<notin> set (logs (world out)))"
proof (intro conjI allI impI)
  show "fst (generatePoints lib pairs camera lineWithPoints) = True"
    by (simp add: generatePoints_def)
next
  fix out
  assume run: "aliceVision_main lib loaded files canSave = Some out"
  show "LOG_ERROR ''Error generating points'' \<notin> set (logs (world out))"
  proof (cases loaded)
    case None
    with run show ?thesis by (auto simp: aliceVision_main_def)
  next
    case (Some sfmData)
    with run obtain r where
      r: "intrinsics_loop lib (getViews sfmData) (load_boards files (getViews sfmData) Map.empty)
          (getIntrinsics sfmData) [] \<lparr>logs = [], estimateCalls = []\<rparr> = Some r"
      by (auto simp: aliceVision_main_def Let_def split: option.splits)
    from intrinsics_loop_logs[OF r] run Some r show ?thesis
      by (auto simp: aliceVision_main_def Let_def split: sum.splits prod.splits if_splits)
  qed
qed

text \<open>A run that reaches the call of \<open>generatePoints\<close>: every solver stage succeeds.\<close>

theorem generatePoints_always_true_witness:
  "fst (generatePoints passing_library [] k1_camera [two_point_line]) = True \<and>
   aliceVision_main passing_library (Some k1_scene) Map.empty True \<noteq> None \<and>
   LOG_ERROR ''Error generating points'' \<notin>
     set (logs (world (the (aliceVision_main passing_library (Some k1_scene) Map.empty True))))"
proof -
  from passing_run obtain out where
    out: "aliceVision_main passing_library (Some k1_scene) Map.empty True = Some out"
    by (cases "aliceVision_main passing_library (Some k1_scene) Map.empty True") auto
  from generatePoints_always_true[of passing_library "[]" k1_camera "[two_point_line]"
      "Some k1_scene" Map.empty True] out
  show ?thesis by simp
qed

end
